theory Spec2Isabelle
  imports Main "HOL-Library.Sublist"
begin

section \<open>Exceptions\<close>

text \<open>
  \<^verbatim>\<open>app/exceptions.py\<close> declares \<^verbatim>\<open>CalculatorError\<close> and its three subclasses
  \<^verbatim>\<open>ValidationError\<close>, \<^verbatim>\<open>OperationError\<close>, \<^verbatim>\<open>ConfigurationError\<close>. Every other
  exception that can travel through the code (those of \<^verbatim>\<open>decimal\<close>, of float arithmetic and
  the built-in ones) is a \<open>PyError\<close> carrying its class and the text \<^verbatim>\<open>str(e)\<close>.
\<close>

datatype py_class =
    InvalidOperation | DivisionByZero | Overflow
  | ZeroDivisionError | OverflowError
  | ValueError | TypeError | KeyError | AttributeError | OSError | RuntimeError

datatype exn =
    ValidationError string
  | OperationError string
  | ConfigurationError string
  | PyError py_class string

fun exn_str :: "exn \<Rightarrow> string" where
  "exn_str (ValidationError m) = m"
| "exn_str (OperationError m) = m"
| "exn_str (ConfigurationError m) = m"
| "exn_str (PyError c m) = m"

text \<open>
  A statement that may raise is a value of \<open>exn + 'a\<close>; \<open>and_then r f\<close> runs \<open>f\<close> on the
  value of \<open>r\<close> unless \<open>r\<close> raised.
\<close>

definition and_then :: "exn + 'a \<Rightarrow> ('a \<Rightarrow> exn + 'b) \<Rightarrow> exn + 'b" where
  "and_then r f = (case r of Inl e \<Rightarrow> Inl e | Inr v \<Rightarrow> f v)"

text \<open>\<^verbatim>\<open>isinstance(e, ArithmeticError)\<close>: the signals of \<^verbatim>\<open>decimal\<close> derive from it.\<close>

fun is_ArithmeticError :: "py_class \<Rightarrow> bool" where
  "is_ArithmeticError InvalidOperation = True"
| "is_ArithmeticError DivisionByZero = True"
| "is_ArithmeticError Overflow = True"
| "is_ArithmeticError ZeroDivisionError = True"
| "is_ArithmeticError OverflowError = True"
| "is_ArithmeticError c = False"

section \<open>The decimal numbers of the calculator\<close>

text \<open>
  The operands and results are values of Python's \<^verbatim>\<open>decimal.Decimal\<close>: a sign, a coefficient
  and an exponent, or one of the special values. The sign is \<open>True\<close> for a negative number.
  Arithmetic runs in the default context: 28 digits, round-half-even, exponents between
  -999999 and 999999, with the signals InvalidOperation, DivisionByZero and Overflow raising.
\<close>

datatype decimal =
    Finite bool nat int
  | Infinity bool
  | NaN bool nat
  | SNaN bool nat

definition ctx_prec :: nat where "ctx_prec = 28"
definition ctx_Emax :: int where "ctx_Emax = 999999"
definition ctx_Emin :: int where "ctx_Emin = - 999999"
definition ctx_Etiny :: int where "ctx_Etiny = ctx_Emin - int ctx_prec + 1"
definition ctx_Etop :: int where "ctx_Etop = ctx_Emax - int ctx_prec + 1"

definition invalid_operation :: exn where
  "invalid_operation = PyError InvalidOperation ''[<class 'decimal.InvalidOperation'>]''"

definition overflow :: exn where
  "overflow = PyError Overflow ''[<class 'decimal.Overflow'>]''"

fun is_finite :: "decimal \<Rightarrow> bool" where
  "is_finite (Finite s c e) = True"
| "is_finite d = False"

fun is_snan :: "decimal \<Rightarrow> bool" where
  "is_snan (SNaN s p) = True"
| "is_snan d = False"

fun is_qnan :: "decimal \<Rightarrow> bool" where
  "is_qnan (NaN s p) = True"
| "is_qnan d = False"

definition is_nan :: "decimal \<Rightarrow> bool" where
  "is_nan d = (is_qnan d \<or> is_snan d)"

fun is_zero :: "decimal \<Rightarrow> bool" where
  "is_zero (Finite s c e) = (c = 0)"
| "is_zero d = False"

text \<open>\<^verbatim>\<open>len(str(n))\<close> for a coefficient.\<close>

fun ndigits :: "nat \<Rightarrow> nat" where
  "ndigits n = (if n < 10 then 1 else Suc (ndigits (n div 10)))"

declare ndigits.simps [simp del]

text \<open>The integer \<open>\<plusminus> c * 10 ^ (e - m)\<close>, for an exponent \<open>m \<le> e\<close>.\<close>

definition scaled :: "bool \<Rightarrow> nat \<Rightarrow> int \<Rightarrow> int \<Rightarrow> int" where
  "scaled s c e m = (if s then - 1 else 1) * int c * 10 ^ nat (e - m)"

text \<open>Three-way comparison of two numbers; there is none when a NaN is involved.\<close>

fun dec_cmp :: "decimal \<Rightarrow> decimal \<Rightarrow> int option" where
  "dec_cmp (Finite s1 c1 e1) (Finite s2 c2 e2) =
     (let m = min e1 e2; a = scaled s1 c1 e1 m; b = scaled s2 c2 e2 m
      in Some (if a < b then - 1 else if a = b then 0 else 1))"
| "dec_cmp (Infinity s1) (Infinity s2) =
     Some (if s1 = s2 then 0 else if s1 then - 1 else 1)"
| "dec_cmp (Infinity s1) (Finite s2 c2 e2) = Some (if s1 then - 1 else 1)"
| "dec_cmp (Finite s1 c1 e1) (Infinity s2) = Some (if s2 then 1 else - 1)"
| "dec_cmp x y = None"

text \<open>
  \<^verbatim>\<open>x == y\<close> and \<^verbatim>\<open>x != y\<close> raise on a signaling NaN and are never equal on a quiet one;
  the order comparisons raise on every NaN.
\<close>

definition dec_eq :: "decimal \<Rightarrow> decimal \<Rightarrow> exn + bool" where
  "dec_eq x y = (if is_snan x \<or> is_snan y then Inl invalid_operation
                 else Inr (dec_cmp x y = Some 0))"

definition dec_ne :: "decimal \<Rightarrow> decimal \<Rightarrow> exn + bool" where
  "dec_ne x y = (case dec_eq x y of Inl e \<Rightarrow> Inl e | Inr b \<Rightarrow> Inr (\<not> b))"

definition dec_ge :: "decimal \<Rightarrow> decimal \<Rightarrow> exn + bool" where
  "dec_ge x y = (case dec_cmp x y of None \<Rightarrow> Inl invalid_operation | Some c \<Rightarrow> Inr (0 \<le> c))"

definition dec_lt :: "decimal \<Rightarrow> decimal \<Rightarrow> exn + bool" where
  "dec_lt x y = (case dec_cmp x y of None \<Rightarrow> Inl invalid_operation | Some c \<Rightarrow> Inr (c < 0))"

text \<open>The integer literal \<^verbatim>\<open>0\<close> of the source, converted for a comparison.\<close>

definition dec_0 :: decimal where
  "dec_0 = Finite False 0 0"

subsection \<open>Rounding to the context\<close>

text \<open>Dropping the last \<open>k\<close> digits of a coefficient, round-half-even.\<close>

definition round_half_even :: "nat \<Rightarrow> nat \<Rightarrow> nat" where
  "round_half_even c k =
     (let p = 10 ^ k; q = c div p; r = c mod p
      in if p < 2 * r \<or> (2 * r = p \<and> odd q) then q + 1 else q)"

text \<open>
  \<^verbatim>\<open>Decimal._fix\<close>: a zero keeps its exponent within range; a number with more than 28 digits,
  or below the subnormal bound, is rounded; a number beyond the largest exponent overflows.
\<close>

definition fix_dec :: "bool \<Rightarrow> nat \<Rightarrow> int \<Rightarrow> exn + decimal" where
  "fix_dec s c e =
     (if c = 0 then Inr (Finite s 0 (min (max e ctx_Etiny) ctx_Emax))
      else
        let exp_min0 = int (ndigits c) + e - int ctx_prec in
        if ctx_Etop < exp_min0 then Inl overflow
        else
          let exp_min = max exp_min0 ctx_Etiny in
          if e < exp_min then
            (let coeff = round_half_even c (nat (exp_min - e)) in
             if ctx_prec < ndigits coeff then
               (if ctx_Etop < exp_min + 1 then Inl overflow
                else Inr (Finite s (coeff div 10) (exp_min + 1)))
             else Inr (Finite s coeff exp_min))
          else Inr (Finite s c e))"

fun fix_nan :: "decimal \<Rightarrow> decimal" where
  "fix_nan (NaN s p) = NaN s (p mod 10 ^ ctx_prec)"
| "fix_nan d = d"

text \<open>\<^verbatim>\<open>Decimal._check_nans\<close>: a signaling NaN raises, a quiet NaN is the result.\<close>

definition check_nans :: "decimal \<Rightarrow> decimal \<Rightarrow> (exn + decimal) option" where
  "check_nans x y =
     (if is_snan x \<or> is_snan y then Some (Inl invalid_operation)
      else if is_qnan x then Some (Inr (fix_nan x))
      else if is_qnan y then Some (Inr (fix_nan y))
      else None)"

subsection \<open>The four exact operations\<close>

fun add_num :: "decimal \<Rightarrow> decimal \<Rightarrow> exn + decimal" where
  "add_num (Finite s1 c1 e1) (Finite s2 c2 e2) =
     (let e = min e1 e2; v = scaled s1 c1 e1 e + scaled s2 c2 e2 e
      in if v = 0 then fix_dec (s1 \<and> s2) 0 e else fix_dec (v < 0) (nat \<bar>v\<bar>) e)"
| "add_num (Infinity s1) (Infinity s2) =
     (if s1 = s2 then Inr (Infinity s1) else Inl invalid_operation)"
| "add_num (Infinity s1) y = Inr (Infinity s1)"
| "add_num x (Infinity s2) = Inr (Infinity s2)"
| "add_num x y = Inl invalid_operation"

definition dec_add :: "decimal \<Rightarrow> decimal \<Rightarrow> exn + decimal" where
  "dec_add x y = (case check_nans x y of Some r \<Rightarrow> r | None \<Rightarrow> add_num x y)"

fun copy_negate :: "decimal \<Rightarrow> decimal" where
  "copy_negate (Finite s c e) = Finite (\<not> s) c e"
| "copy_negate (Infinity s) = Infinity (\<not> s)"
| "copy_negate (NaN s p) = NaN (\<not> s) p"
| "copy_negate (SNaN s p) = SNaN (\<not> s) p"

definition dec_sub :: "decimal \<Rightarrow> decimal \<Rightarrow> exn + decimal" where
  "dec_sub x y = (case check_nans x y of Some r \<Rightarrow> r | None \<Rightarrow> add_num x (copy_negate y))"

fun mul_num :: "decimal \<Rightarrow> decimal \<Rightarrow> exn + decimal" where
  "mul_num (Finite s1 c1 e1) (Finite s2 c2 e2) = fix_dec (s1 \<noteq> s2) (c1 * c2) (e1 + e2)"
| "mul_num (Infinity s1) (Finite s2 c2 e2) =
     (if c2 = 0 then Inl invalid_operation else Inr (Infinity (s1 \<noteq> s2)))"
| "mul_num (Finite s1 c1 e1) (Infinity s2) =
     (if c1 = 0 then Inl invalid_operation else Inr (Infinity (s1 \<noteq> s2)))"
| "mul_num (Infinity s1) (Infinity s2) = Inr (Infinity (s1 \<noteq> s2))"
| "mul_num x y = Inl invalid_operation"

definition dec_mul :: "decimal \<Rightarrow> decimal \<Rightarrow> exn + decimal" where
  "dec_mul x y = (case check_nans x y of Some r \<Rightarrow> r | None \<Rightarrow> mul_num x y)"

text \<open>
  An exact quotient sheds trailing zeros while its exponent is below the ideal one:
  \<^verbatim>\<open>while exp < ideal_exp and coeff % 10 == 0\<close>.
\<close>

function to_ideal :: "nat \<Rightarrow> int \<Rightarrow> int \<Rightarrow> nat \<times> int" where
  "to_ideal coeff e ideal_exp =
     (if e < ideal_exp \<and> coeff mod 10 = 0 then to_ideal (coeff div 10) (e + 1) ideal_exp
      else (coeff, e))"
  by pat_completeness auto
termination
  by (relation "measure (\<lambda>(coeff, e, ideal_exp). nat (ideal_exp - e))") auto

declare to_ideal.simps [simp del]

fun div_num :: "decimal \<Rightarrow> decimal \<Rightarrow> exn + decimal" where
  "div_num (Finite s1 c1 e1) (Finite s2 c2 e2) =
     (if c2 = 0 then
        (if c1 = 0 then Inl (PyError InvalidOperation ''[<class 'decimal.DivisionUndefined'>]'')
         else Inl (PyError DivisionByZero ''[<class 'decimal.DivisionByZero'>]''))
      else if c1 = 0 then fix_dec (s1 \<noteq> s2) 0 (e1 - e2)
      else
        let shift = int (ndigits c2) - int (ndigits c1) + int ctx_prec + 1;
            e = e1 - e2 - shift;
            num = (if 0 \<le> shift then c1 * 10 ^ nat shift else c1);
            den = (if 0 \<le> shift then c2 else c2 * 10 ^ nat (- shift));
            coeff = num div den;
            remainder = num mod den
        in if remainder \<noteq> 0 then
             fix_dec (s1 \<noteq> s2) (if coeff mod 5 = 0 then coeff + 1 else coeff) e
           else (case to_ideal coeff e (e1 - e2) of (coeff', e') \<Rightarrow> fix_dec (s1 \<noteq> s2) coeff' e'))"
| "div_num (Infinity s1) (Infinity s2) = Inl invalid_operation"
| "div_num (Infinity s1) (Finite s2 c2 e2) = Inr (Infinity (s1 \<noteq> s2))"
| "div_num (Finite s1 c1 e1) (Infinity s2) = Inr (Finite (s1 \<noteq> s2) 0 ctx_Etiny)"
| "div_num x y = Inl invalid_operation"

definition dec_div :: "decimal \<Rightarrow> decimal \<Rightarrow> exn + decimal" where
  "dec_div x y = (case check_nans x y of Some r \<Rightarrow> r | None \<Rightarrow> div_num x y)"

subsection \<open>Decimal numbers as text\<close>

text \<open>\<^verbatim>\<open>str(n)\<close> and \<^verbatim>\<open>int(s)\<close> for a natural number and a string of digits.\<close>

definition digit_char :: "nat \<Rightarrow> char" where
  "digit_char n = ''0123456789'' ! n"

definition is_digit :: "char \<Rightarrow> bool" where
  "is_digit c = (c \<in> set ''0123456789'')"

definition digit_val :: "char \<Rightarrow> nat" where
  "digit_val c = of_char c - 48"

fun str_nat :: "nat \<Rightarrow> string" where
  "str_nat n = (if n < 10 then [digit_char n] else str_nat (n div 10) @ [digit_char (n mod 10)])"

declare str_nat.simps [simp del]

definition nat_of_str :: "string \<Rightarrow> nat" where
  "nat_of_str ds = foldl (\<lambda>a c. 10 * a + digit_val c) 0 ds"

definition sign_str :: "bool \<Rightarrow> string" where
  "sign_str s = (if s then ''-'' else [])"

text \<open>The format \<^verbatim>\<open>"%+d"\<close>.\<close>

definition fmt_plus_d :: "int \<Rightarrow> string" where
  "fmt_plus_d i = (if i < 0 then ''-'' else ''+'') @ str_nat (nat \<bar>i\<bar>)"

text \<open>
  \<^verbatim>\<open>Decimal.__str__\<close>: plain notation when the exponent is not positive and the number
  is at least \<open>10\<^sup>-\<^sup>6\<close> in its leading digit, scientific notation with one digit before the
  point otherwise.
\<close>

fun decimal_str :: "decimal \<Rightarrow> string" where
  "decimal_str (Infinity s) = sign_str s @ ''Infinity''"
| "decimal_str (NaN s p) = sign_str s @ ''NaN'' @ (if p = 0 then [] else str_nat p)"
| "decimal_str (SNaN s p) = sign_str s @ ''sNaN'' @ (if p = 0 then [] else str_nat p)"
| "decimal_str (Finite s c e) =
     (let ds = str_nat c;
          len = int (length ds);
          leftdigits = e + len;
          dotplace = (if e \<le> 0 \<and> - 6 < leftdigits then leftdigits else 1);
          intpart = (if dotplace \<le> 0 then ''0''
                     else if len \<le> dotplace then ds @ replicate (nat (dotplace - len)) (CHR ''0'')
                     else take (nat dotplace) ds);
          fracpart = (if dotplace \<le> 0 then ''.'' @ replicate (nat (- dotplace)) (CHR ''0'') @ ds
                      else if len \<le> dotplace then []
                      else ''.'' @ drop (nat dotplace) ds);
          exp = (if leftdigits = dotplace then [] else ''E'' @ fmt_plus_d (leftdigits - dotplace))
      in sign_str s @ intpart @ fracpart @ exp)"

text \<open>
  \<^verbatim>\<open>Decimal(text)\<close>: surrounding whitespace and underscores are dropped, then the text is a
  sign followed by digits with an optional point and exponent, by \<^verbatim>\<open>Inf\<close> or \<^verbatim>\<open>Infinity\<close>,
  or by \<^verbatim>\<open>NaN\<close> or \<^verbatim>\<open>sNaN\<close> with a payload; letters in either case. Anything else raises
  InvalidOperation. Only ASCII digits and whitespace are modelled.
\<close>

definition is_space :: "char \<Rightarrow> bool" where
  "is_space c = (c \<in> set [CHR '' '', CHR 0x09, CHR 0x0A, CHR 0x0B, CHR 0x0C, CHR 0x0D,
                            CHR 0x1C, CHR 0x1D, CHR 0x1E, CHR 0x1F])"

definition strip :: "string \<Rightarrow> string" where
  "strip s = rev (dropWhile is_space (rev (dropWhile is_space s)))"

definition lower_char :: "char \<Rightarrow> char" where
  "lower_char c =
     (case map_of (zip ''ABCDEFGHIJKLMNOPQRSTUVWXYZ'' ''abcdefghijklmnopqrstuvwxyz'') c of
        Some l \<Rightarrow> l | None \<Rightarrow> c)"

definition lower :: "string \<Rightarrow> string" where
  "lower s = map lower_char s"

definition split_sign :: "string \<Rightarrow> bool \<times> string" where
  "split_sign s = (case s of [] \<Rightarrow> (False, [])
                   | c # t \<Rightarrow> if c = CHR ''-'' then (True, t)
                            else if c = CHR ''+'' then (False, t) else (False, s))"

text \<open>The exponent part: nothing, or \<^verbatim>\<open>E\<close>, an optional sign and at least one digit.\<close>

definition parse_exp :: "string \<Rightarrow> int option" where
  "parse_exp s =
     (case s of [] \<Rightarrow> Some 0
      | c # t \<Rightarrow>
          if lower_char c = CHR ''e'' then
            (case split_sign t of (neg, ds) \<Rightarrow>
               if ds \<noteq> [] \<and> list_all is_digit ds
               then Some (if neg then - int (nat_of_str ds) else int (nat_of_str ds))
               else None)
          else None)"

definition parse_number :: "string \<Rightarrow> (nat \<times> int) option" where
  "parse_number r =
     (let intpart = takeWhile is_digit r;
          r1 = dropWhile is_digit r;
          fracpart = (case r1 of [] \<Rightarrow> []
                      | c # t \<Rightarrow> if c = CHR ''.'' then takeWhile is_digit t else []);
          r2 = (case r1 of [] \<Rightarrow> []
                | c # t \<Rightarrow> if c = CHR ''.'' then dropWhile is_digit t else r1)
      in if intpart = [] \<and> fracpart = [] then None
         else (case parse_exp r2 of None \<Rightarrow> None
               | Some ex \<Rightarrow> Some (nat_of_str (intpart @ fracpart), ex - int (length fracpart))))"

definition parse_special :: "bool \<Rightarrow> string \<Rightarrow> decimal option" where
  "parse_special neg r =
     (let l = lower r in
      if l = ''inf'' \<or> l = ''infinity'' then Some (Infinity neg)
      else if take 3 l = ''nan'' \<and> list_all is_digit (drop 3 l)
        then Some (NaN neg (nat_of_str (drop 3 l)))
      else if take 4 l = ''snan'' \<and> list_all is_digit (drop 4 l)
        then Some (SNaN neg (nat_of_str (drop 4 l)))
      else None)"

definition conversion_syntax :: exn where
  "conversion_syntax = PyError InvalidOperation ''[<class 'decimal.ConversionSyntax'>]''"

definition decimal_parse :: "string \<Rightarrow> exn + decimal" where
  "decimal_parse text =
     (case split_sign (filter (\<lambda>c. c \<noteq> CHR ''_'') (strip text)) of (neg, r) \<Rightarrow>
        (case parse_number r of Some (c, e) \<Rightarrow> Inr (Finite neg c e)
         | None \<Rightarrow> (case parse_special neg r of Some d \<Rightarrow> Inr d
                    | None \<Rightarrow> Inl conversion_syntax)))"

section \<open>Calculation records (\<^verbatim>\<open>app/calculation.py\<close>)\<close>

text \<open>
  Binary floating point and \<^verbatim>\<open>datetime\<close> are library code outside the repository. They are
  parameters of the model: \<open>float_pow x y\<close> stands for \<^verbatim>\<open>Decimal(pow(float(x), float(y)))\<close> and
  \<open>float_root x y\<close> for \<^verbatim>\<open>Decimal(pow(float(x), 1 / float(y)))\<close>, either of which may raise;
  \<open>isoformat\<close> and \<open>fromisoformat\<close> are the two conversions of a timestamp of type \<open>'t\<close>.
\<close>

record 't pylib =
  float_pow :: "decimal \<Rightarrow> decimal \<Rightarrow> exn + decimal"
  float_root :: "decimal \<Rightarrow> decimal \<Rightarrow> exn + decimal"
  isoformat :: "'t \<Rightarrow> string"
  fromisoformat :: "string \<Rightarrow> exn + 't"

record 't calculation =
  operation :: string
  operand1 :: decimal
  operand2 :: decimal
  result :: decimal
  timestamp :: 't

definition raise_div_zero :: "exn + decimal" where
  "raise_div_zero = Inl (OperationError ''Division by zero is not allowed'')"

definition raise_neg_power :: "exn + decimal" where
  "raise_neg_power = Inl (OperationError ''Negative exponents are not supported'')"

definition raise_invalid_root :: "decimal \<Rightarrow> decimal \<Rightarrow> exn + decimal" where
  "raise_invalid_root x y =
     (case dec_eq y dec_0 of Inl e \<Rightarrow> Inl e
      | Inr True \<Rightarrow> Inl (OperationError ''Zero root is undefined'')
      | Inr False \<Rightarrow>
          (case dec_lt x dec_0 of Inl e \<Rightarrow> Inl e
           | Inr True \<Rightarrow> Inl (OperationError ''Cannot calculate root of negative number'')
           | Inr False \<Rightarrow> Inl (OperationError ''Invalid root operation'')))"

text \<open>The six lambdas of the dictionary \<^verbatim>\<open>operations\<close>, in the order of the source.\<close>

definition op_division :: "decimal \<Rightarrow> decimal \<Rightarrow> exn + decimal" where
  "op_division x y =
     (case dec_ne y dec_0 of Inl e \<Rightarrow> Inl e
      | Inr True \<Rightarrow> dec_div x y
      | Inr False \<Rightarrow> raise_div_zero)"

definition op_power :: "'t pylib \<Rightarrow> decimal \<Rightarrow> decimal \<Rightarrow> exn + decimal" where
  "op_power lib x y =
     (case dec_ge y dec_0 of Inl e \<Rightarrow> Inl e
      | Inr True \<Rightarrow> float_pow lib x y
      | Inr False \<Rightarrow> raise_neg_power)"

definition op_root :: "'t pylib \<Rightarrow> decimal \<Rightarrow> decimal \<Rightarrow> exn + decimal" where
  "op_root lib x y =
     (case dec_ge x dec_0 of Inl e \<Rightarrow> Inl e
      | Inr False \<Rightarrow> raise_invalid_root x y
      | Inr True \<Rightarrow>
          (case dec_ne y dec_0 of Inl e \<Rightarrow> Inl e
           | Inr True \<Rightarrow> float_root lib x y
           | Inr False \<Rightarrow> raise_invalid_root x y))"

definition operations :: "'t pylib \<Rightarrow> (string \<times> (decimal \<Rightarrow> decimal \<Rightarrow> exn + decimal)) list" where
  "operations lib =
     [(''Addition'', dec_add),
      (''Subtraction'', dec_sub),
      (''Multiplication'', dec_mul),
      (''Division'', op_division),
      (''Power'', op_power lib),
      (''Root'', op_root lib)]"

text \<open>\<^verbatim>\<open>except (InvalidOperation, ValueError, ArithmeticError)\<close> around the call of the lambda.\<close>

fun wrap_calculate :: "exn + decimal \<Rightarrow> exn + decimal" where
  "wrap_calculate (Inl (PyError c m)) =
     (if c = InvalidOperation \<or> c = ValueError \<or> is_ArithmeticError c
      then Inl (OperationError (''Calculation failed: '' @ m))
      else Inl (PyError c m))"
| "wrap_calculate r = r"

definition calculate :: "'t pylib \<Rightarrow> string \<Rightarrow> decimal \<Rightarrow> decimal \<Rightarrow> exn + decimal" where
  "calculate lib opname x y =
     (case map_of (operations lib) opname of
        None \<Rightarrow> Inl (OperationError (''Unknown operation: '' @ opname))
      | Some op \<Rightarrow> wrap_calculate (op x y))"

text \<open>
  The constructor with \<^verbatim>\<open>__post_init__\<close>: the result is computed at once, and a failure of
  \<open>calculate\<close> leaves no record. The operands are decimals by their type here, so the
  \<^verbatim>\<open>isinstance\<close> check of the source always passes. \<open>now\<close> is the clock reading that
  \<^verbatim>\<open>datetime.datetime.now\<close> returns.
\<close>

definition Calculation :: "'t pylib \<Rightarrow> 't \<Rightarrow> string \<Rightarrow> decimal \<Rightarrow> decimal \<Rightarrow> exn + 't calculation" where
  "Calculation lib now opname a b =
     (case calculate lib opname a b of
        Inl e \<Rightarrow> Inl e
      | Inr r \<Rightarrow> Inr \<lparr>operation = opname, operand1 = a, operand2 = b, result = r, timestamp = now\<rparr>)"

text \<open>\<^verbatim>\<open>__eq__\<close>: the four fields other than the timestamp, compared left to right.\<close>

definition calc_eq :: "'t calculation \<Rightarrow> 't calculation \<Rightarrow> exn + bool" where
  "calc_eq c d =
     (if operation c \<noteq> operation d then Inr False
      else (case dec_eq (operand1 c) (operand1 d) of Inl e \<Rightarrow> Inl e
            | Inr False \<Rightarrow> Inr False
            | Inr True \<Rightarrow>
                (case dec_eq (operand2 c) (operand2 d) of Inl e \<Rightarrow> Inl e
                 | Inr False \<Rightarrow> Inr False
                 | Inr True \<Rightarrow> dec_eq (result c) (result d))))"

text \<open>\<^verbatim>\<open>__str__\<close>.\<close>

definition calc_str :: "'t calculation \<Rightarrow> string" where
  "calc_str c = operation c @ ''('' @ decimal_str (operand1 c) @ '', '' @ decimal_str (operand2 c)
                @ '') = '' @ decimal_str (result c)"

subsection \<open>Serialization\<close>

text \<open>A dictionary with string keys and string values, as \<open>to_dict\<close> produces it.\<close>

type_synonym pydict = "(string \<times> string) list"

definition to_dict :: "'t pylib \<Rightarrow> 't calculation \<Rightarrow> pydict" where
  "to_dict lib c =
     [(''operation'', operation c),
      (''operand1'', decimal_str (operand1 c)),
      (''operand2'', decimal_str (operand2 c)),
      (''result'', decimal_str (result c)),
      (''timestamp'', isoformat lib (timestamp c))]"

text \<open>\<^verbatim>\<open>data[key]\<close>; the text of a KeyError is the key in quotes.\<close>

definition getitem :: "pydict \<Rightarrow> string \<Rightarrow> exn + string" where
  "getitem data k =
     (case map_of data k of
        None \<Rightarrow> Inl (PyError KeyError ([CHR 0x27] @ k @ [CHR 0x27]))
      | Some v \<Rightarrow> Inr v)"

text \<open>
  The body of \<open>from_dict\<close> inside its \<^verbatim>\<open>try\<close>. It returns the record and the warnings it
  logged: one when the stored result differs from the recomputed one.
\<close>

definition from_dict_body :: "'t pylib \<Rightarrow> 't \<Rightarrow> pydict \<Rightarrow> exn + ('t calculation \<times> string list)" where
  "from_dict_body lib now data =
     and_then (getitem data ''operation'') (\<lambda>opname.
     and_then (getitem data ''operand1'') (\<lambda>t1.
     and_then (decimal_parse t1) (\<lambda>a.
     and_then (getitem data ''operand2'') (\<lambda>t2.
     and_then (decimal_parse t2) (\<lambda>b.
     and_then (Calculation lib now opname a b) (\<lambda>calc0.
     and_then (getitem data ''timestamp'') (\<lambda>ts.
     and_then (fromisoformat lib ts) (\<lambda>t.
     let calc = calc0\<lparr>timestamp := t\<rparr> in
     and_then (getitem data ''result'') (\<lambda>tr.
     and_then (decimal_parse tr) (\<lambda>saved_result.
     and_then (dec_ne (result calc) saved_result) (\<lambda>differs.
       Inr (calc,
            if differs
            then [''Loaded calculation result '' @ decimal_str saved_result
                  @ '' differs from computed result '' @ decimal_str (result calc)]
            else []))))))))))))"

text \<open>\<^verbatim>\<open>except (KeyError, InvalidOperation, ValueError)\<close>.\<close>

fun wrap_from_dict :: "exn + 'a \<Rightarrow> exn + 'a" where
  "wrap_from_dict (Inl (PyError c m)) =
     (if c = KeyError \<or> c = InvalidOperation \<or> c = ValueError
      then Inl (OperationError (''Invalid calculation data: '' @ m))
      else Inl (PyError c m))"
| "wrap_from_dict r = r"

definition from_dict :: "'t pylib \<Rightarrow> 't \<Rightarrow> pydict \<Rightarrow> exn + ('t calculation \<times> string list)" where
  "from_dict lib now data = wrap_from_dict (from_dict_body lib now data)"

text \<open>\<^verbatim>\<open>data[key] = value\<close> on such a dictionary.\<close>

fun setitem :: "pydict \<Rightarrow> string \<Rightarrow> string \<Rightarrow> pydict" where
  "setitem [] k v = [(k, v)]"
| "setitem ((k', v') # data) k v =
     (if k' = k then (k, v) # data else (k', v') # setitem data k v)"

section \<open>The calculation factory (\<^verbatim>\<open>app/calculation/__init__.py\<close>)\<close>

text \<open>
  \<^verbatim>\<open>CalculationFactory._calculations\<close> is a dictionary from lower-case names to calculation
  classes; its keys are listed in insertion order, so it is an association list. A class is
  the function that builds an instance from the two operands.
\<close>

type_synonym ('f, 'c) registry = "(string \<times> ('f \<Rightarrow> 'f \<Rightarrow> 'c)) list"

fun join :: "string \<Rightarrow> string list \<Rightarrow> string" where
  "join sep [] = []"
| "join sep [x] = x"
| "join sep (x # y # zs) = x @ sep @ join sep (y # zs)"

definition register_calculation ::
  "('f, 'c) registry \<Rightarrow> string \<Rightarrow> ('f \<Rightarrow> 'f \<Rightarrow> 'c) \<Rightarrow> exn + ('f, 'c) registry" where
  "register_calculation reg calculation_type subclass =
     (let calculation_type_lower = lower calculation_type in
      if calculation_type_lower \<in> set (map fst reg)
      then Inl (PyError ValueError
             (''Calculation type '' @ [CHR 0x27] @ calculation_type @ [CHR 0x27]
              @ '' is already registered.''))
      else Inr (reg @ [(calculation_type_lower, subclass)]))"

definition create_calculation :: "('f, 'c) registry \<Rightarrow> string \<Rightarrow> 'f \<Rightarrow> 'f \<Rightarrow> exn + 'c" where
  "create_calculation reg calculation_type a b =
     (case map_of reg (lower calculation_type) of
        None \<Rightarrow>
          Inl (PyError ValueError
            (''Unsupported calculation type: '' @ [CHR 0x27] @ calculation_type @ [CHR 0x27]
             @ ''. Available types: '' @ join '', '' (map fst reg)))
      | Some calculation_class \<Rightarrow> Inr (calculation_class a b))"

text \<open>The four classes registered by the module, with their decorators in source order.\<close>

datatype 'f factory_calculation =
    AddCalculation 'f 'f
  | SubtractCalculation 'f 'f
  | MultiplyCalculation 'f 'f
  | DivideCalculation 'f 'f

definition module_registry :: "('f, 'f factory_calculation) registry" where
  "module_registry =
     [(''add'', AddCalculation), (''subtract'', SubtractCalculation),
      (''multiply'', MultiplyCalculation), (''divide'', DivideCalculation)]"

fun is_OperationError :: "exn + 'a \<Rightarrow> bool" where
  "is_OperationError (Inl (OperationError m)) = True"
| "is_OperationError r = False"

fun is_ValidationError :: "exn + 'a \<Rightarrow> bool" where
  "is_ValidationError (Inl (ValidationError m)) = True"
| "is_ValidationError r = False"

section \<open>The calculator engine (\<^verbatim>\<open>app/calculator.py\<close>)\<close>

text \<open>
  Modelled from the spec: \<^verbatim>\<open>app/calculator_config.py\<close> is not among the sources. Of the
  configuration the engine reads \<open>max_history_size\<close> (an integer) and \<open>auto_save\<close>.
\<close>

record config =
  max_history_size :: int
  auto_save :: bool

text \<open>
  Modelled from the spec: \<^verbatim>\<open>app/calculator_memento.py\<close> is not among the sources. A memento
  is a passive value holding a copy of the history; the engine builds it with
  \<^verbatim>\<open>CalculatorMemento(self.history.copy())\<close> and reads its field \<^verbatim>\<open>history\<close>.
\<close>

datatype 't memento = CalculatorMemento (memento_history: "'t calculation list")

text \<open>
  Modelled from the spec: \<^verbatim>\<open>app/operations.py\<close> is not among the sources. Of an operation
  strategy the engine uses \<^verbatim>\<open>str(operation)\<close> and \<^verbatim>\<open>operation.execute(a, b)\<close>, which may raise.
\<close>

record strategy =
  op_str :: string
  execute :: "decimal \<Rightarrow> decimal \<Rightarrow> exn + decimal"

text \<open>
  The observers of \<^verbatim>\<open>app/history.py\<close>, and any other subclass of \<^verbatim>\<open>HistoryObserver\<close>
  whose \<^verbatim>\<open>update\<close> leaves the calculator alone: it returns or raises.
\<close>

datatype 't observer =
    LoggingObserver
  | AutoSaveObserver
  | OtherObserver "'t calculation \<Rightarrow> exn option"

record 't calculator =
  config :: config
  history :: "'t calculation list"
  operation_strategy :: "strategy option"
  observers :: "'t observer list"
  undo_stack :: "'t memento list"
  redo_stack :: "'t memento list"

text \<open>
  What the engine is given from outside: the library, the input validator
  (\<^verbatim>\<open>app/input_validators.py\<close> is not among the sources; it takes a raw value of type \<open>'r\<close>),
  and the outcome of writing and reading the history file through pandas.
\<close>

record ('r, 't) env =
  lib :: "'t pylib"
  validate_number :: "'r \<Rightarrow> config \<Rightarrow> exn + decimal"
  to_csv :: "pydict list \<Rightarrow> exn option"

definition add_observer :: "'t observer \<Rightarrow> 't calculator \<Rightarrow> 't calculator" where
  "add_observer observer st = st\<lparr>observers := observers st @ [observer]\<rparr>"

definition remove_observer :: "'t observer \<Rightarrow> 't calculator \<Rightarrow> exn + 't calculator" where
  "remove_observer observer st =
     (if observer \<in> set (observers st) then Inr (st\<lparr>observers := remove1 observer (observers st)\<rparr>)
      else Inl (PyError ValueError ''list.remove(x): x not in list''))"

definition set_operation :: "strategy \<Rightarrow> 't calculator \<Rightarrow> 't calculator" where
  "set_operation strat st = st\<lparr>operation_strategy := Some strat\<rparr>"

text \<open>\<open>save_history\<close>: one row per calculation; a failure of the write is wrapped.\<close>

definition history_data :: "'t pylib \<Rightarrow> 't calculation list \<Rightarrow> pydict list" where
  "history_data l h =
     map (\<lambda>calc. [(''operation'', operation calc),
                   (''operand1'', decimal_str (operand1 calc)),
                   (''operand2'', decimal_str (operand2 calc)),
                   (''result'', decimal_str (result calc)),
                   (''timestamp'', isoformat l (timestamp calc))]) h"

definition save_history :: "('r, 't) env \<Rightarrow> 't calculator \<Rightarrow> exn option" where
  "save_history env st =
     (case to_csv env (history_data (lib env) (history st)) of
        None \<Rightarrow> None
      | Some e \<Rightarrow> Some (OperationError (''Failed to save history: '' @ exn_str e)))"

text \<open>
  \<^verbatim>\<open>observer.update(calculation)\<close>. The calculation is never \<^verbatim>\<open>None\<close> here. The auto-save
  observer holds the calculator it observes.
\<close>

fun update :: "('r, 't) env \<Rightarrow> 't calculator \<Rightarrow> 't observer \<Rightarrow> 't calculation \<Rightarrow> exn option" where
  "update env st LoggingObserver calculation = None"
| "update env st AutoSaveObserver calculation =
     (if auto_save (config st) then save_history env st else None)"
| "update env st (OtherObserver f) calculation = f calculation"

fun notify_all :: "('r, 't) env \<Rightarrow> 't calculator \<Rightarrow> 't observer list \<Rightarrow> 't calculation \<Rightarrow> exn option" where
  "notify_all env st [] calculation = None"
| "notify_all env st (observer # rest) calculation =
     (case update env st observer calculation of
        Some e \<Rightarrow> Some e
      | None \<Rightarrow> notify_all env st rest calculation)"

definition notify_observers :: "('r, 't) env \<Rightarrow> 't calculator \<Rightarrow> 't calculation \<Rightarrow> exn option" where
  "notify_observers env st calculation = notify_all env st (observers st) calculation"

text \<open>
  \<open>perform_operation\<close>, lines 205 to 216: validation of both inputs, execution of the
  strategy and construction of the record. Nothing of the calculator is written here.
\<close>

definition prepare ::
  "('r, 't) env \<Rightarrow> 't \<Rightarrow> 'r \<Rightarrow> 'r \<Rightarrow> 't calculator \<Rightarrow> strategy \<Rightarrow> exn + (decimal \<times> 't calculation)" where
  "prepare env now a b st strat =
     and_then (validate_number env a (config st)) (\<lambda>validated_a.
     and_then (validate_number env b (config st)) (\<lambda>validated_b.
     and_then (execute strat validated_a validated_b) (\<lambda>res.
     and_then (Calculation (lib env) now (op_str strat) validated_a validated_b) (\<lambda>calculation.
       Inr (res, calculation)))))"

text \<open>
  Lines 218 to 231: the snapshot goes on the undo stack, the redo stack is cleared, the
  record is appended and, when the history is longer than the bound, its first entry is
  removed (\<^verbatim>\<open>pop(0)\<close> on a list that has just been appended to).
\<close>

definition commit :: "'t calculation \<Rightarrow> 't calculator \<Rightarrow> 't calculator" where
  "commit calculation st =
     (let st1 = st\<lparr>undo_stack := undo_stack st @ [CalculatorMemento (history st)]\<rparr>;
          st2 = st1\<lparr>redo_stack := []\<rparr>;
          st3 = st2\<lparr>history := history st2 @ [calculation]\<rparr>
      in if max_history_size (config st3) < int (length (history st3))
         then st3\<lparr>history := tl (history st3)\<rparr>
         else st3)"

text \<open>The two \<^verbatim>\<open>except\<close> clauses: a ValidationError is raised again, the rest is wrapped.\<close>

fun handle_failure :: "exn \<Rightarrow> exn" where
  "handle_failure (ValidationError m) = ValidationError m"
| "handle_failure e = OperationError (''Operation failed: '' @ exn_str e)"

definition perform_operation ::
  "('r, 't) env \<Rightarrow> 't \<Rightarrow> 'r \<Rightarrow> 'r \<Rightarrow> 't calculator \<Rightarrow> (exn + decimal) \<times> 't calculator" where
  "perform_operation env now a b st =
     (case operation_strategy st of
        None \<Rightarrow> (Inl (OperationError ''No operation set''), st)
      | Some strat \<Rightarrow>
          (case prepare env now a b st strat of
             Inl e \<Rightarrow> (Inl (handle_failure e), st)
           | Inr (res, calculation) \<Rightarrow>
               (let st' = commit calculation st in
                case notify_observers env st' calculation of
                  Some e \<Rightarrow> (Inl (handle_failure e), st')
                | None \<Rightarrow> (Inr res, st'))))"

definition clear_history :: "'t calculator \<Rightarrow> 't calculator" where
  "clear_history st = st\<lparr>history := [], undo_stack := [], redo_stack := []\<rparr>"

definition undo :: "'t calculator \<Rightarrow> bool \<times> 't calculator" where
  "undo st =
     (if undo_stack st = [] then (False, st)
      else
        let memento = last (undo_stack st);
            st1 = st\<lparr>undo_stack := butlast (undo_stack st)\<rparr>;
            st2 = st1\<lparr>redo_stack := redo_stack st1 @ [CalculatorMemento (history st1)]\<rparr>
        in (True, st2\<lparr>history := memento_history memento\<rparr>))"

definition redo :: "'t calculator \<Rightarrow> bool \<times> 't calculator" where
  "redo st =
     (if redo_stack st = [] then (False, st)
      else
        let memento = last (redo_stack st);
            st1 = st\<lparr>redo_stack := butlast (redo_stack st)\<rparr>;
            st2 = st1\<lparr>undo_stack := undo_stack st1 @ [CalculatorMemento (history st1)]\<rparr>
        in (True, st2\<lparr>history := memento_history memento\<rparr>))"

definition show_history :: "'t calculator \<Rightarrow> string list" where
  "show_history st = map calc_str (history st)"

text \<open>
  \<open>load_history\<close>. The file is \<open>None\<close> when it does not exist; otherwise reading it raised
  or gave its rows, each a dictionary of the five columns. Every row goes through
  \<open>from_dict\<close>; the history is assigned once all rows are converted.
\<close>

fun from_rows :: "'t pylib \<Rightarrow> 't \<Rightarrow> pydict list \<Rightarrow> exn + 't calculation list" where
  "from_rows l now [] = Inr []"
| "from_rows l now (row # rows) =
     and_then (getitem row ''operation'') (\<lambda>v1.
     and_then (getitem row ''operand1'') (\<lambda>v2.
     and_then (getitem row ''operand2'') (\<lambda>v3.
     and_then (getitem row ''result'') (\<lambda>v4.
     and_then (getitem row ''timestamp'') (\<lambda>v5.
     and_then (from_dict l now
                 [(''operation'', v1), (''operand1'', v2), (''operand2'', v3),
                  (''result'', v4), (''timestamp'', v5)]) (\<lambda>(calc, warnings).
     and_then (from_rows l now rows) (\<lambda>calcs. Inr (calc # calcs))))))))"

definition load_history ::
  "('r, 't) env \<Rightarrow> 't \<Rightarrow> (exn + pydict list) option \<Rightarrow> 't calculator \<Rightarrow> exn option \<times> 't calculator" where
  "load_history env now file st =
     (case file of
        None \<Rightarrow> (None, st)
      | Some (Inl e) \<Rightarrow> (Some (OperationError (''Failed to load history: '' @ exn_str e)), st)
      | Some (Inr rows) \<Rightarrow>
          if rows = [] then (None, st)
          else (case from_rows (lib env) now rows of
                  Inl e \<Rightarrow> (Some (OperationError (''Failed to load history: '' @ exn_str e)), st)
                | Inr calcs \<Rightarrow> (None, st\<lparr>history := calcs\<rparr>)))"

section \<open>Example instances\<close>

text \<open>
  A small instance of the parameters, for running the model on examples. Timestamps are
  counted in seconds and written as decimal numerals. The float functions are defined where
  the float result is known exactly: \<^verbatim>\<open>pow(x, 0.0)\<close> is 1 and \<^verbatim>\<open>pow(x, 1.0)\<close> is \<open>x\<close> for a small
  non-negative integer \<open>x\<close>, and \<^verbatim>\<open>pow(0.0, -1.0)\<close> raises ZeroDivisionError. Elsewhere the
  instance raises OverflowError, which stands for a computation the examples do not use.
\<close>

definition small_int :: "decimal \<Rightarrow> bool" where
  "small_int x = (case x of Finite s c e \<Rightarrow> \<not> s \<and> e = 0 \<and> c < 9007199254740992 | _ \<Rightarrow> False)"

definition demo_unused :: "exn + decimal" where
  "demo_unused = Inl (PyError OverflowError ''(34, 'Numerical result out of range')'')"

definition demo_float_pow :: "decimal \<Rightarrow> decimal \<Rightarrow> exn + decimal" where
  "demo_float_pow x y =
     (if small_int x \<and> y = Finite False 0 0 then Inr (Finite False 1 0)
      else if small_int x \<and> y = Finite False 1 0 then Inr x
      else demo_unused)"

definition demo_float_root :: "decimal \<Rightarrow> decimal \<Rightarrow> exn + decimal" where
  "demo_float_root x y =
     (if small_int x \<and> y = Finite False 1 0 then Inr x
      else if x = Finite False 0 0 \<and> y = Finite True 1 0
        then Inl (PyError ZeroDivisionError ''0.0 cannot be raised to a negative power'')
      else demo_unused)"

definition demo_fromisoformat :: "string \<Rightarrow> exn + nat" where
  "demo_fromisoformat s =
     (if s \<noteq> [] \<and> list_all is_digit s then Inr (nat_of_str s)
      else Inl (PyError ValueError (''Invalid isoformat string: '' @ [CHR 0x27] @ s @ [CHR 0x27])))"

definition demo_lib :: "nat pylib" where
  "demo_lib =
     \<lparr>float_pow = demo_float_pow, float_root = demo_float_root,
      isoformat = str_nat, fromisoformat = demo_fromisoformat\<rparr>"

text \<open>A validator that accepts what \<^verbatim>\<open>Decimal\<close> can read.\<close>

definition demo_validate :: "string \<Rightarrow> config \<Rightarrow> exn + decimal" where
  "demo_validate raw cfg =
     (case decimal_parse raw of
        Inl e \<Rightarrow> Inl (ValidationError (''Invalid number format: '' @ raw))
      | Inr d \<Rightarrow> Inr d)"

definition demo_env :: "(string, nat) env" where
  "demo_env = \<lparr>lib = demo_lib, validate_number = demo_validate, to_csv = (\<lambda>rows. None)\<rparr>"

text \<open>The same with a history file that cannot be written.\<close>

definition demo_env_readonly :: "(string, nat) env" where
  "demo_env_readonly =
     \<lparr>lib = demo_lib, validate_number = demo_validate,
      to_csv = (\<lambda>rows. Some (PyError OSError ''[Errno 30] Read-only file system''))\<rparr>"

definition demo_Addition :: strategy where
  "demo_Addition = \<lparr>op_str = ''Addition'', execute = dec_add\<rparr>"

definition demo_Division :: strategy where
  "demo_Division = \<lparr>op_str = ''Division'', execute = op_division\<rparr>"

text \<open>A strategy that \<^verbatim>\<open>Calculation.calculate\<close> has no entry for.\<close>

definition demo_Modulus :: strategy where
  "demo_Modulus = \<lparr>op_str = ''Modulus'', execute = (\<lambda>a b. Inr a)\<rparr>"

definition demo_start :: "nat calculator" where
  "demo_start =
     \<lparr>config = \<lparr>max_history_size = 2, auto_save = True\<rparr>,
      history = [],
      operation_strategy = Some demo_Addition,
      observers = [LoggingObserver, AutoSaveObserver],
      undo_stack = [],
      redo_stack = []\<rparr>"

definition demo_c1 :: "nat calculation" where
  "demo_c1 = \<lparr>operation = ''Addition'', operand1 = Finite False 25 (- 1),
              operand2 = Finite False 35 (- 1), result = Finite False 60 (- 1), timestamp = 1\<rparr>"

definition demo_c2 :: "nat calculation" where
  "demo_c2 = \<lparr>operation = ''Addition'', operand1 = Finite False 1 0,
              operand2 = Finite False 2 0, result = Finite False 3 0, timestamp = 2\<rparr>"

definition demo_c3 :: "nat calculation" where
  "demo_c3 = \<lparr>operation = ''Addition'', operand1 = Finite False 10 0,
              operand2 = Finite False 20 0, result = Finite False 30 0, timestamp = 3\<rparr>"

definition demo_st1 :: "nat calculator" where
  "demo_st1 = demo_start\<lparr>history := [demo_c1], undo_stack := [CalculatorMemento []]\<rparr>"

definition demo_st2 :: "nat calculator" where
  "demo_st2 = demo_start\<lparr>history := [demo_c1, demo_c2],
                undo_stack := [CalculatorMemento [], CalculatorMemento [demo_c1]]\<rparr>"

definition demo_st3 :: "nat calculator" where
  "demo_st3 = demo_start\<lparr>history := [demo_c2, demo_c3],
                undo_stack := [CalculatorMemento [], CalculatorMemento [demo_c1],
                               CalculatorMemento [demo_c1, demo_c2]]\<rparr>"

text \<open>After the first calculation has been undone, and after a new one from there.\<close>

definition demo_undone :: "nat calculator" where
  "demo_undone = demo_start\<lparr>redo_stack := [CalculatorMemento [demo_c1]]\<rparr>"

definition demo_redone :: "nat calculator" where
  "demo_redone = demo_start\<lparr>history := [demo_c2], undo_stack := [CalculatorMemento []]\<rparr>"

definition demo_div_start :: "nat calculator" where
  "demo_div_start = demo_start\<lparr>operation_strategy := Some demo_Division\<rparr>"

definition demo_mod_start :: "nat calculator" where
  "demo_mod_start = demo_start\<lparr>operation_strategy := Some demo_Modulus\<rparr>"

text \<open>Three rows of a history file, as \<open>save_history\<close> writes them.\<close>

definition demo_rows :: "pydict list" where
  "demo_rows =
     [[(''operation'', ''Addition''), (''operand1'', ''1''), (''operand2'', ''2''),
       (''result'', ''3''), (''timestamp'', ''1'')],
      [(''operation'', ''Addition''), (''operand1'', ''3''), (''operand2'', ''4''),
       (''result'', ''7''), (''timestamp'', ''2'')],
      [(''operation'', ''Addition''), (''operand1'', ''5''), (''operand2'', ''6''),
       (''result'', ''11''), (''timestamp'', ''3'')]]"

definition demo_loaded :: "nat calculator" where
  "demo_loaded =
     demo_start\<lparr>history :=
       [\<lparr>operation = ''Addition'', operand1 = Finite False 1 0, operand2 = Finite False 2 0,
          result = Finite False 3 0, timestamp = 1\<rparr>,
        \<lparr>operation = ''Addition'', operand1 = Finite False 3 0, operand2 = Finite False 4 0,
          result = Finite False 7 0, timestamp = 2\<rparr>,
        \<lparr>operation = ''Addition'', operand1 = Finite False 5 0, operand2 = Finite False 6 0,
          result = Finite False 11 0, timestamp = 3\<rparr>]\<rparr>"

text \<open>
  The bound on the history, for the live history and for every snapshot on the two stacks
  (a snapshot becomes the live history on undo and redo).
\<close>

definition within_bound :: "'t calculator \<Rightarrow> bool" where
  "within_bound st =
     (int (length (history st)) \<le> max_history_size (config st)
      \<and> list_all (\<lambda>m. int (length (memento_history m)) \<le> max_history_size (config st))
                  (undo_stack st @ redo_stack st))"

text \<open>Predicates for stating the outcome of the operations.\<close>

fun is_negative :: "decimal \<Rightarrow> bool" where
  "is_negative (Finite s c e) = (s \<and> c \<noteq> 0)"
| "is_negative (Infinity s) = s"
| "is_negative d = False"

fun finite_or_overflow :: "exn + decimal \<Rightarrow> bool" where
  "finite_or_overflow (Inr q) = is_finite q"
| "finite_or_overflow (Inl e) = (e = overflow)"

text \<open>A value, or an exception of the library rather than one of \<^verbatim>\<open>app/exceptions.py\<close>.\<close>

fun library_outcome :: "exn + 'a \<Rightarrow> bool" where
  "library_outcome (Inl (PyError c m)) = True"
| "library_outcome (Inl e) = False"
| "library_outcome (Inr v) = True"

text \<open>A record whose first operand is not a number.\<close>

definition demo_nan :: "nat calculation" where
  "demo_nan = \<lparr>operation = ''Addition'', operand1 = NaN False 0,
               operand2 = Finite False 1 0, result = NaN False 0, timestamp = 1\<rparr>"

section \<open>Properties\<close>

subsection \<open>Evaluation\<close>

lemma and_then_simps [simp]:
  "and_then (Inl e) f = Inl e"
  "and_then (Inr x) f = f x"
  by (simp_all add: and_then_def)

lemmas dec_eval =
  dec_add_def dec_sub_def dec_mul_def dec_div_def check_nans_def fix_dec_def round_half_even_def
  scaled_def ctx_prec_def ctx_Emax_def ctx_Emin_def ctx_Etiny_def ctx_Etop_def Let_def
  ndigits.simps to_ideal.simps dec_ge_def dec_lt_def dec_eq_def dec_ne_def dec_0_def
  invalid_operation_def overflow_def is_nan_def

lemmas str_eval = Let_def str_nat.simps digit_char_def sign_str_def fmt_plus_d_def

lemmas parse_eval =
  decimal_parse_def strip_def is_space_def split_sign_def parse_number_def parse_exp_def
  parse_special_def is_digit_def nat_of_str_def digit_val_def lower_def lower_char_def
  conversion_syntax_def Let_def

lemmas calc_eval =
  Calculation_def calculate_def operations_def op_division_def op_power_def op_root_def
  raise_div_zero_def raise_neg_power_def raise_invalid_root_def

lemmas engine_eval =
  perform_operation_def prepare_def commit_def notify_observers_def save_history_def
  undo_def redo_def

lemmas demo_eval =
  demo_env_def demo_env_readonly_def demo_lib_def demo_validate_def demo_start_def
  demo_Addition_def demo_Division_def demo_Modulus_def demo_float_pow_def demo_float_root_def
  demo_fromisoformat_def demo_unused_def small_int_def
  demo_c1_def demo_c2_def demo_c3_def demo_st1_def demo_st2_def demo_st3_def
  demo_undone_def demo_redone_def

lemma demo_run1:
  "perform_operation demo_env 1 ''2.5'' ''3.5'' demo_start = (Inr (Finite False 60 (- 1)), demo_st1)"
  by (simp add: engine_eval calc_eval demo_eval parse_eval dec_eval)

lemma demo_run2:
  "perform_operation demo_env 2 ''1'' ''2'' demo_st1 = (Inr (Finite False 3 0), demo_st2)"
  by (simp add: engine_eval calc_eval demo_eval parse_eval dec_eval)

lemma demo_run3:
  "perform_operation demo_env 3 ''10'' ''20'' demo_st2 = (Inr (Finite False 30 0), demo_st3)"
  by (simp add: engine_eval calc_eval demo_eval parse_eval dec_eval)

lemma demo_undo1: "undo demo_st1 = (True, demo_undone)"
  by (simp add: engine_eval demo_eval)

lemma demo_run_redone:
  "perform_operation demo_env 2 ''1'' ''2'' demo_undone = (Inr (Finite False 3 0), demo_redone)"
  by (simp add: engine_eval calc_eval demo_eval parse_eval dec_eval)

subsection \<open>The engine\<close>

lemma commit_fields:
  "undo_stack (commit c st) = undo_stack st @ [CalculatorMemento (history st)]"
  "redo_stack (commit c st) = []"
  "config (commit c st) = config st"
  "observers (commit c st) = observers st"
  "operation_strategy (commit c st) = operation_strategy st"
  "history (commit c st) =
     (if max_history_size (config st) < int (length (history st)) + 1
      then tl (history st @ [c]) else history st @ [c])"
  by (simp_all add: commit_def Let_def)

lemma perform_operation_success:
  assumes "perform_operation env now a b st = (Inr r, st')"
  shows "\<exists>strat c. operation_strategy st = Some strat \<and> prepare env now a b st strat = Inr (r, c)
            \<and> notify_observers env (commit c st) c = None \<and> st' = commit c st"
  using assms
  by (auto simp add: perform_operation_def Let_def split: option.splits sum.splits prod.splits)




text \<open>With a snapshot on the undo stack, undo followed by redo gives the calculator back.\<close>

lemma redo_undo_restores:
  assumes "undo_stack st \<noteq> []"
  shows "fst (undo st)" and "redo (snd (undo st)) = (True, st)"
proof -
  show "fst (undo st)" using assms by (simp add: undo_def Let_def)
  show "redo (snd (undo st)) = (True, st)"
    using assms by (simp add: undo_def redo_def Let_def)
qed

text \<open>
  C1. After two successful calls of \<open>perform_operation\<close> that leave the history \<open>[c1, c2]\<close>,
  \<open>undo\<close> and then \<open>redo\<close> both return true and the history is \<open>[c1, c2]\<close> again, with the
  very records it held; the two stacks are as they were, too.
\<close>

theorem undo_redo_roundtrip:
  assumes "perform_operation env now1 a1 b1 st0 = (Inr r1, st1)"
      and "perform_operation env now2 a2 b2 st1 = (Inr r2, st2)"
      and "history st2 = [c1, c2]"
  shows "fst (undo st2) \<and> fst (redo (snd (undo st2)))
         \<and> history (snd (redo (snd (undo st2)))) = [c1, c2]
         \<and> snd (redo (snd (undo st2))) = st2"
proof -
  obtain strat c where "st2 = commit c st1"
    using perform_operation_success [OF assms(2)] by blast
  then have ne: "undo_stack st2 \<noteq> []" by (simp add: commit_fields)
  show ?thesis using redo_undo_restores [OF ne] assms(3) by simp
qed

theorem undo_redo_roundtrip_witness:
  "perform_operation demo_env 1 ''2.5'' ''3.5'' demo_start = (Inr (Finite False 60 (- 1)), demo_st1)
   \<and> perform_operation demo_env 2 ''1'' ''2'' demo_st1 = (Inr (Finite False 3 0), demo_st2)
   \<and> history demo_st2 = [demo_c1, demo_c2]
   \<and> fst (undo demo_st2) \<and> fst (redo (snd (undo demo_st2)))
   \<and> history (snd (redo (snd (undo demo_st2)))) = [demo_c1, demo_c2]
   \<and> snd (redo (snd (undo demo_st2))) = demo_st2"
proof -
  have h: "history demo_st2 = [demo_c1, demo_c2]" by (simp add: demo_st2_def)
  from undo_redo_roundtrip [OF demo_run1 demo_run2 h] demo_run1 demo_run2 h
  show ?thesis by blast
qed

text \<open>
  C2. Every successful call of \<open>perform_operation\<close> leaves the redo stack empty, so that a
  \<open>redo\<close> right after it returns false and changes nothing; this holds in particular when
  the call follows an \<open>undo\<close>, which had put a snapshot on the redo stack.
\<close>

theorem perform_clears_redo:
  assumes "perform_operation env now a b st = (Inr r, st')"
  shows "redo_stack st' = [] \<and> redo st' = (False, st')"
proof -
  obtain strat c where "st' = commit c st"
    using perform_operation_success [OF assms] by blast
  then have "redo_stack st' = []" by (simp add: commit_fields)
  then show ?thesis by (simp add: redo_def)
qed

theorem perform_clears_redo_witness:
  "perform_operation demo_env 1 ''2.5'' ''3.5'' demo_start = (Inr (Finite False 60 (- 1)), demo_st1)
   \<and> undo demo_st1 = (True, demo_undone)
   \<and> redo_stack demo_undone = [CalculatorMemento [demo_c1]]
   \<and> perform_operation demo_env 2 ''1'' ''2'' demo_undone = (Inr (Finite False 3 0), demo_redone)
   \<and> redo_stack demo_redone = [] \<and> redo demo_redone = (False, demo_redone)"
proof -
  have r: "redo_stack demo_undone = [CalculatorMemento [demo_c1]]"
    by (simp add: demo_undone_def)
  from perform_clears_redo [OF demo_run_redone] demo_run1 demo_undo1 demo_run_redone r
  show ?thesis by blast
qed



text \<open>
  C9. When \<open>perform_operation\<close> fails before the commit, because the validation of an input
  raises, the strategy raises or the record cannot be built, the call raises and the
  calculator is exactly as before: the history, the undo stack and the redo stack are
  unchanged.
\<close>

theorem precommit_failure_atomic:
  assumes "operation_strategy st = Some strat"
      and "(\<exists>e. validate_number env a (config st) = Inl e)
         \<or> (\<exists>e. validate_number env b (config st) = Inl e)
         \<or> (\<exists>va vb e. validate_number env a (config st) = Inr va
                \<and> validate_number env b (config st) = Inr vb
                \<and> (execute strat va vb = Inl e
                    \<or> Calculation (lib env) now (op_str strat) va vb = Inl e))"
  shows "(\<exists>e. fst (perform_operation env now a b st) = Inl e)
       \<and> snd (perform_operation env now a b st) = st
       \<and> history (snd (perform_operation env now a b st)) = history st
       \<and> undo_stack (snd (perform_operation env now a b st)) = undo_stack st
       \<and> redo_stack (snd (perform_operation env now a b st)) = redo_stack st"
proof -
  have "\<exists>e. prepare env now a b st strat = Inl e"
    using assms(2)
    by (cases "validate_number env a (config st)"; cases "validate_number env b (config st)")
       (auto simp add: prepare_def and_then_def split: sum.splits)
  then obtain e where "prepare env now a b st strat = Inl e" ..
  then have "perform_operation env now a b st = (Inl (handle_failure e), st)"
    using assms(1) by (simp add: perform_operation_def)
  then show ?thesis by simp
qed

theorem precommit_failure_atomic_witness:
  "(validate_number demo_env ''abc'' (config demo_start)
      = Inl (ValidationError ''Invalid number format: abc'')
    \<and> (\<exists>e. fst (perform_operation demo_env 1 ''abc'' ''1'' demo_start) = Inl e)
    \<and> snd (perform_operation demo_env 1 ''abc'' ''1'' demo_start) = demo_start)
 \<and> (execute demo_Division (Finite False 1 0) (Finite False 0 0)
      = Inl (OperationError ''Division by zero is not allowed'')
    \<and> (\<exists>e. fst (perform_operation demo_env 1 ''1'' ''0'' demo_div_start) = Inl e)
    \<and> snd (perform_operation demo_env 1 ''1'' ''0'' demo_div_start) = demo_div_start)
 \<and> (execute demo_Modulus (Finite False 7 0) (Finite False 3 0) = Inr (Finite False 7 0)
    \<and> Calculation (lib demo_env) 1 (op_str demo_Modulus) (Finite False 7 0) (Finite False 3 0)
      = Inl (OperationError ''Unknown operation: Modulus'')
    \<and> (\<exists>e. fst (perform_operation demo_env 1 ''7'' ''3'' demo_mod_start) = Inl e)
    \<and> snd (perform_operation demo_env 1 ''7'' ''3'' demo_mod_start) = demo_mod_start
    \<and> history (snd (perform_operation demo_env 1 ''7'' ''3'' demo_mod_start))
        = history demo_mod_start
    \<and> undo_stack (snd (perform_operation demo_env 1 ''7'' ''3'' demo_mod_start))
        = undo_stack demo_mod_start
    \<and> redo_stack (snd (perform_operation demo_env 1 ''7'' ''3'' demo_mod_start))
        = redo_stack demo_mod_start)"
proof -
  have s1: "operation_strategy demo_start = Some demo_Addition"
    by (simp add: demo_start_def)
  have s2: "operation_strategy demo_div_start = Some demo_Division"
    by (simp add: demo_div_start_def demo_start_def)
  have s3: "operation_strategy demo_mod_start = Some demo_Modulus"
    by (simp add: demo_mod_start_def demo_start_def)
  have v1: "validate_number demo_env ''abc'' (config demo_start)
            = Inl (ValidationError ''Invalid number format: abc'')"
    by (simp add: demo_eval parse_eval)
  have v2: "validate_number demo_env ''1'' (config demo_div_start) = Inr (Finite False 1 0)"
           "validate_number demo_env ''0'' (config demo_div_start) = Inr (Finite False 0 0)"
    by (simp_all add: demo_eval parse_eval)
  have x2: "execute demo_Division (Finite False 1 0) (Finite False 0 0)
            = Inl (OperationError ''Division by zero is not allowed'')"
    by (simp add: demo_eval calc_eval dec_eval)
  have v3: "validate_number demo_env ''7'' (config demo_mod_start) = Inr (Finite False 7 0)"
           "validate_number demo_env ''3'' (config demo_mod_start) = Inr (Finite False 3 0)"
    by (simp_all add: demo_eval parse_eval)
  have x3: "execute demo_Modulus (Finite False 7 0) (Finite False 3 0) = Inr (Finite False 7 0)"
    by (simp add: demo_eval)
  have k3: "Calculation (lib demo_env) 1 (op_str demo_Modulus) (Finite False 7 0) (Finite False 3 0)
            = Inl (OperationError ''Unknown operation: Modulus'')"
    by (simp add: demo_eval calc_eval)
  have c1: "(\<exists>e. fst (perform_operation demo_env 1 ''abc'' ''1'' demo_start) = Inl e)
            \<and> snd (perform_operation demo_env 1 ''abc'' ''1'' demo_start) = demo_start"
    using precommit_failure_atomic [OF s1, of demo_env "''abc''" "''1''" 1] v1 by blast
  have c2: "(\<exists>e. fst (perform_operation demo_env 1 ''1'' ''0'' demo_div_start) = Inl e)
            \<and> snd (perform_operation demo_env 1 ''1'' ''0'' demo_div_start) = demo_div_start"
    using precommit_failure_atomic [OF s2, of demo_env "''1''" "''0''" 1] v2 x2 by blast
  have c3: "(\<exists>e. fst (perform_operation demo_env 1 ''7'' ''3'' demo_mod_start) = Inl e)
       \<and> snd (perform_operation demo_env 1 ''7'' ''3'' demo_mod_start) = demo_mod_start
       \<and> history (snd (perform_operation demo_env 1 ''7'' ''3'' demo_mod_start))
           = history demo_mod_start
       \<and> undo_stack (snd (perform_operation demo_env 1 ''7'' ''3'' demo_mod_start))
           = undo_stack demo_mod_start
       \<and> redo_stack (snd (perform_operation demo_env 1 ''7'' ''3'' demo_mod_start))
           = redo_stack demo_mod_start"
    using precommit_failure_atomic [OF s3, of demo_env "''7''" "''3''" 1] v3 k3 by blast
  show ?thesis using v1 x2 x3 k3 c1 c2 c3 by blast
qed

text \<open>
  C10. When the history is as long as the bound, a successful \<open>perform_operation\<close> appends
  the new record and removes the oldest one, and an \<open>undo\<close> right after it returns true and
  restores the whole history of before the call, the removed record included: the snapshot
  is taken before the append and the eviction.
\<close>

theorem eviction_undone:
  assumes "int (length (history st)) = max_history_size (config st)"
      and "perform_operation env now a b st = (Inr r, st1)"
  shows "(\<exists>c. history st1 = tl (history st @ [c]))
         \<and> length (history st1) = length (history st)
         \<and> fst (undo st1) \<and> history (snd (undo st1)) = history st"
proof -
  obtain strat c where st1: "st1 = commit c st"
    using perform_operation_success [OF assms(2)] by blast
  have h: "history st1 = tl (history st @ [c])"
    using assms(1) st1 by (simp add: commit_fields)
  have u: "undo_stack st1 = undo_stack st @ [CalculatorMemento (history st)]"
    using st1 by (simp add: commit_fields)
  show ?thesis using h u by (auto simp add: undo_def Let_def)
qed

theorem eviction_undone_witness:
  "int (length (history demo_st2)) = max_history_size (config demo_st2)
   \<and> perform_operation demo_env 3 ''10'' ''20'' demo_st2 = (Inr (Finite False 30 0), demo_st3)
   \<and> history demo_st2 = [demo_c1, demo_c2]
   \<and> history demo_st3 = [demo_c2, demo_c3]
   \<and> fst (undo demo_st3) \<and> history (snd (undo demo_st3)) = [demo_c1, demo_c2]"
proof -
  have b: "int (length (history demo_st2)) = max_history_size (config demo_st2)"
    by (simp add: demo_st2_def demo_start_def)
  have h2: "history demo_st2 = [demo_c1, demo_c2]" by (simp add: demo_st2_def)
  have h3: "history demo_st3 = [demo_c2, demo_c3]" by (simp add: demo_st3_def)
  from eviction_undone [OF b demo_run3] b demo_run3 h2 h3
  show ?thesis by simp
qed

subsection \<open>The bound on the history\<close>

lemma commit_within_bound:
  assumes "within_bound st"
  shows "within_bound (commit c st)"
  using assms by (auto simp add: within_bound_def commit_fields)

lemma perform_operation_within_bound:
  assumes "within_bound st"
  shows "within_bound (snd (perform_operation env now a b st))"
  using assms commit_within_bound [OF assms]
  by (auto simp add: perform_operation_def Let_def split: option.splits sum.splits prod.splits)

lemma undo_within_bound:
  assumes "within_bound st"
  shows "within_bound (snd (undo st))"
proof (cases "undo_stack st = []")
  case True
  then show ?thesis using assms by (simp add: undo_def)
next
  case False
  then obtain ms m where ms: "undo_stack st = ms @ [m]"
    by (metis append_butlast_last_id)
  show ?thesis using assms ms
    by (auto simp add: within_bound_def undo_def Let_def)
qed

lemma redo_within_bound:
  assumes "within_bound st"
  shows "within_bound (snd (redo st))"
proof (cases "redo_stack st = []")
  case True
  then show ?thesis using assms by (simp add: redo_def)
next
  case False
  then obtain ms m where ms: "redo_stack st = ms @ [m]"
    by (metis append_butlast_last_id)
  show ?thesis using assms ms
    by (auto simp add: within_bound_def redo_def Let_def)
qed

lemma clear_history_within_bound:
  assumes "0 \<le> max_history_size (config st)"
  shows "within_bound (clear_history st)"
  using assms by (simp add: within_bound_def clear_history_def)

lemma set_operation_within_bound:
  "within_bound (set_operation strat st) = within_bound st"
  by (simp add: within_bound_def set_operation_def)

lemma add_observer_within_bound:
  "within_bound (add_observer ob st) = within_bound st"
  by (simp add: within_bound_def add_observer_def)

text \<open>
  With a bound of 2 and an empty history, three successful operations leave the second and
  the third record: the first one is evicted.
\<close>

lemma three_operations_keep_last_two:
  assumes "max_history_size (config st0) = 2" and "history st0 = []"
      and "perform_operation env n1 a1 b1 st0 = (Inr r1, st1)"
      and "perform_operation env n2 a2 b2 st1 = (Inr r2, st2)"
      and "perform_operation env n3 a3 b3 st2 = (Inr r3, st3)"
  shows "\<exists>c1 c2 c3. history st1 = [c1] \<and> history st2 = [c1, c2] \<and> history st3 = [c2, c3]"
proof -
  obtain s1 c1 where 1: "st1 = commit c1 st0"
    using perform_operation_success [OF assms(3)] by blast
  obtain s2 c2 where 2: "st2 = commit c2 st1"
    using perform_operation_success [OF assms(4)] by blast
  obtain s3 c3 where 3: "st3 = commit c3 st2"
    using perform_operation_success [OF assms(5)] by blast
  have h1: "history st1 = [c1]" using 1 assms(1,2) by (simp add: commit_fields)
  have g1: "max_history_size (config st1) = 2" using 1 assms(1) by (simp add: commit_fields)
  have h2: "history st2 = [c1, c2]" using 2 h1 g1 by (simp add: commit_fields)
  have g2: "max_history_size (config st2) = 2" using 2 g1 by (simp add: commit_fields)
  have h3: "history st3 = [c2, c3]" using 3 h2 g2 by (simp add: commit_fields)
  show ?thesis using h1 h2 h3 by blast
qed

lemmas serial_eval =
  load_history_def from_dict_def from_dict_body_def getitem_def to_dict_def

lemma demo_load:
  "load_history demo_env 0 (Some (Inr demo_rows)) demo_start = (None, demo_loaded)"
  by (simp add: serial_eval demo_rows_def demo_loaded_def calc_eval demo_eval parse_eval dec_eval)

text \<open>
  C3. The bound \<open>len(history) \<le> max_history_size\<close> is kept by \<open>perform_operation\<close>,
  \<open>undo\<close>, \<open>redo\<close> and \<open>clear_history\<close> (the lemmas above), but not by \<open>load_history\<close>: with a
  bound of 2 and an empty history, loading a file of three rows leaves three records, and
  an operation performed after it leaves three again.
\<close>

theorem load_history_exceeds_bound:
  "max_history_size (config demo_start) = 2
   \<and> within_bound demo_start
   \<and> load_history demo_env 0 (Some (Inr demo_rows)) demo_start = (None, demo_loaded)
   \<and> length (history demo_loaded) = 3
   \<and> \<not> within_bound demo_loaded
   \<and> fst (perform_operation demo_env 4 ''1'' ''2'' demo_loaded) = Inr (Finite False 3 0)
   \<and> length (history (snd (perform_operation demo_env 4 ''1'' ''2'' demo_loaded))) = 3"
proof -
  have "perform_operation demo_env 4 ''1'' ''2'' demo_loaded
        = (Inr (Finite False 3 0),
           demo_loaded\<lparr>history := tl (history demo_loaded)
                          @ [\<lparr>operation = ''Addition'', operand1 = Finite False 1 0,
                               operand2 = Finite False 2 0, result = Finite False 3 0,
                               timestamp = 4\<rparr>],
                        undo_stack := [CalculatorMemento (history demo_loaded)]\<rparr>)"
    by (simp add: engine_eval demo_loaded_def calc_eval demo_eval parse_eval dec_eval)
  then show ?thesis
    using demo_load by (simp add: within_bound_def demo_loaded_def demo_start_def)
qed

subsection \<open>Unknown operation names\<close>

lemma sublist_join:
  assumes "k \<in> set ks"
  shows "sublist k (join sep ks)"
  using assms
proof (induction sep ks rule: join.induct)
  case (1 sep)
  then show ?case by simp
next
  case (2 sep x)
  then show ?case by simp
next
  case (3 sep x y zs)
  show ?case
  proof (cases "k = x")
    case True
    then show ?thesis by (simp add: sublist_append_rightI)
  next
    case False
    then have "sublist k (join sep (y # zs))" using 3 by simp
    then obtain ps ss where "join sep (y # zs) = ps @ k @ ss"
      by (auto simp add: sublist_def)
    then have "join sep (x # y # zs) = (x @ sep @ ps) @ k @ ss" by simp
    then show ?thesis unfolding sublist_def by blast
  qed
qed

lemma map_of_operations_None:
  assumes "opname \<notin> set [''Addition'', ''Subtraction'', ''Multiplication'', ''Division'', ''Power'', ''Root'']"
  shows "map_of (operations l) opname = None"
  using assms by (simp add: operations_def)


lemmas factory_eval =
  create_calculation_def register_calculation_def module_registry_def lower_def lower_char_def

text \<open>
  C8, as the code has it. Resolving a name that is not registered through
  \<open>create_calculation\<close> raises a ValueError, not an OperationError; its message names the
  requested type and lists every registered name, separated by commas, in the order of
  registration. \<open>calculate\<close> on an operation name outside its table raises an OperationError
  whose message names only the unknown operation.
\<close>

theorem unknown_name_errors:
  "(map_of reg (lower name) = None \<longrightarrow>
      create_calculation reg name a b
        = Inl (PyError ValueError
            (''Unsupported calculation type: '' @ [CHR 0x27] @ name @ [CHR 0x27]
             @ ''. Available types: '' @ join '', '' (map fst reg)))
      \<and> (\<forall>k \<in> set (map fst reg). sublist k (join '', '' (map fst reg)))
      \<and> \<not> is_OperationError (create_calculation reg name a b))
 \<and> (opname \<notin> set [''Addition'', ''Subtraction'', ''Multiplication'', ''Division'',
                     ''Power'', ''Root'']
      \<longrightarrow> calculate l opname x y = Inl (OperationError (''Unknown operation: '' @ opname)))"
  using map_of_operations_None [of opname l]
  by (auto simp add: create_calculation_def calculate_def sublist_join simp del: set_simps)


theorem unknown_name_errors_witness:
  "map_of (module_registry :: (int, int factory_calculation) registry) (lower ''Modulus'') = None
   \<and> create_calculation module_registry ''Modulus'' (10::int) 5
       = (Inl (PyError ValueError
            ''Unsupported calculation type: 'Modulus'. Available types: add, subtract, multiply, divide'')
          :: exn + int factory_calculation)
   \<and> sublist ''add'' (join '', '' (map fst (module_registry :: (int, int factory_calculation) registry)))
   \<and> sublist ''divide'' (join '', '' (map fst (module_registry :: (int, int factory_calculation) registry)))
   \<and> calculate demo_lib ''Modulus'' (Finite False 7 0) (Finite False 3 0)
       = Inl (OperationError ''Unknown operation: Modulus'')"
proof -
  have n: "map_of (module_registry :: (int, int factory_calculation) registry) (lower ''Modulus'') = None"
    by (simp add: factory_eval)
  have k: "''add'' \<in> set (map fst (module_registry :: (int, int factory_calculation) registry))"
          "''divide'' \<in> set (map fst (module_registry :: (int, int factory_calculation) registry))"
    by (simp_all add: module_registry_def)
  have o: "''Modulus'' \<notin> set [''Addition'', ''Subtraction'', ''Multiplication'', ''Division'',
                                ''Power'', ''Root'']"
    by simp
  note t = unknown_name_errors
         [where reg = "module_registry :: (int, int factory_calculation) registry"
            and name = "''Modulus''" and a = 10 and b = 5 and opname = "''Modulus''"
            and l = demo_lib and x = "Finite False 7 0" and y = "Finite False 3 0"]
  have c: "create_calculation module_registry ''Modulus'' (10::int) 5
           = (Inl (PyError ValueError
                (''Unsupported calculation type: '' @ [CHR 0x27] @ ''Modulus'' @ [CHR 0x27]
                 @ ''. Available types: ''
                 @ join '', '' (map fst (module_registry :: (int, int factory_calculation) registry))))
              :: exn + int factory_calculation)"
    using t n by blast
  have b: "\<forall>k \<in> set (map fst (module_registry :: (int, int factory_calculation) registry)).
             sublist k (join '', '' (map fst (module_registry :: (int, int factory_calculation) registry)))"
    using t n by blast
  have u: "calculate demo_lib ''Modulus'' (Finite False 7 0) (Finite False 3 0)
           = Inl (OperationError (''Unknown operation: '' @ ''Modulus''))"
    using t o by blast
  have c': "create_calculation module_registry ''Modulus'' (10::int) 5
       = (Inl (PyError ValueError
            ''Unsupported calculation type: 'Modulus'. Available types: add, subtract, multiply, divide'')
          :: exn + int factory_calculation)"
    using c by (simp add: module_registry_def)
  have u': "calculate demo_lib ''Modulus'' (Finite False 7 0) (Finite False 3 0)
           = Inl (OperationError ''Unknown operation: Modulus'')"
    using u by simp
  show ?thesis using n c' u' b [rule_format, OF k(1)] b [rule_format, OF k(2)] by blast
qed

text \<open>
  C8 as stated fails: the failure of the factory on \<^verbatim>\<open>'modulus'\<close> is a ValueError, and the
  OperationError of \<open>calculate\<close> lists no registered name.
\<close>

theorem unknown_name_counterexample:
  "create_calculation module_registry ''modulus'' (10::int) 5
     = (Inl (PyError ValueError
          ''Unsupported calculation type: 'modulus'. Available types: add, subtract, multiply, divide'')
        :: exn + int factory_calculation)
   \<and> \<not> is_OperationError
         (create_calculation module_registry ''modulus'' (10::int) 5 :: exn + int factory_calculation)
   \<and> calculate demo_lib ''Modulus'' (Finite False 7 0) (Finite False 3 0)
       = Inl (OperationError ''Unknown operation: Modulus'')"
  by (simp add: factory_eval calc_eval)

subsection \<open>Division and root\<close>

lemma scaled_eq_0 [simp]: "scaled s c e m = 0 \<longleftrightarrow> c = 0"
  by (simp add: scaled_def)

lemma scaled_0 [simp]: "scaled s 0 e m = 0"
  by (simp add: scaled_def)

lemma scaled_less_0: "scaled s c e m < 0 \<longleftrightarrow> s \<and> c \<noteq> 0"
  by (auto simp add: scaled_def zero_less_mult_iff mult_less_0_iff)

text \<open>The comparisons of the source with the literal 0.\<close>

lemma dec_eq_0:
  "dec_eq y dec_0 = (if is_snan y then Inl invalid_operation else Inr (is_zero y))"
  by (cases y) (auto simp add: dec_eq_def dec_0_def Let_def)

lemma dec_ne_0:
  "dec_ne y dec_0 = (if is_snan y then Inl invalid_operation else Inr (\<not> is_zero y))"
  by (simp add: dec_ne_def dec_eq_0)

lemma dec_lt_0:
  "dec_lt x dec_0 = (if is_nan x then Inl invalid_operation else Inr (is_negative x))"
  by (cases x) (auto simp add: dec_lt_def dec_0_def Let_def is_nan_def scaled_less_0)

lemma dec_ge_0:
  "dec_ge x dec_0 = (if is_nan x then Inl invalid_operation else Inr (\<not> is_negative x))"
  by (cases x) (auto simp add: dec_ge_def dec_0_def Let_def is_nan_def scaled_less_0 not_less [symmetric])

lemma fix_dec_cases:
  "(\<exists>c' e'. fix_dec s c e = Inr (Finite s c' e')) \<or> fix_dec s c e = Inl overflow"
  by (simp add: fix_dec_def Let_def)

lemma wrap_calculate_overflow:
  "wrap_calculate (Inl overflow) = Inl (OperationError ''Calculation failed: [<class 'decimal.Overflow'>]'')"
  by (simp add: overflow_def)

lemma wrap_calculate_invalid:
  "wrap_calculate (Inl invalid_operation)
   = Inl (OperationError ''Calculation failed: [<class 'decimal.InvalidOperation'>]'')"
  by (simp add: invalid_operation_def)

lemma wrap_calculate_Inr [simp]: "wrap_calculate (Inr q) = Inr q"
  by simp

lemma fix_dec_outcome [simp]: "finite_or_overflow (fix_dec s c e)"
  by (simp add: fix_dec_def Let_def)

lemma div_num_outcome:
  "c2 \<noteq> 0 \<Longrightarrow> finite_or_overflow (div_num (Finite s1 c1 e1) (Finite s2 c2 e2))"
  by (simp add: Let_def split: prod.splits)

lemma dec_div_outcome:
  assumes "is_finite x" and "is_finite y" and "\<not> is_zero y"
  shows "finite_or_overflow (dec_div x y)"
proof -
  obtain s1 c1 e1 where x: "x = Finite s1 c1 e1" using assms(1) by (cases x) simp_all
  obtain s2 c2 e2 where y: "y = Finite s2 c2 e2" using assms(2) by (cases y) simp_all
  have "c2 \<noteq> 0" using assms(3) y by simp
  from div_num_outcome [OF this] show ?thesis
    by (simp add: dec_div_def check_nans_def x y)
qed

lemma fix_dec_library [simp]: "library_outcome (fix_dec s c e)"
  by (simp add: fix_dec_def Let_def overflow_def)

lemma div_num_library: "library_outcome (div_num x y)"
  by (cases x; cases y) (simp_all add: Let_def invalid_operation_def split: prod.splits)

lemma dec_div_library: "library_outcome (dec_div x y)"
  using div_num_library [of x y]
  by (simp add: dec_div_def check_nans_def invalid_operation_def)

lemma wrap_calculate_eq_OperationError:
  assumes "library_outcome r"
  shows "wrap_calculate r \<noteq> Inl (OperationError ''Division by zero is not allowed'')"
proof (cases r)
  case (Inl e)
  then show ?thesis using assms by (cases e) auto
next
  case (Inr v)
  then show ?thesis by simp
qed

lemma calculate_Division: "calculate l ''Division'' x y = wrap_calculate (op_division x y)"
  by (simp add: calculate_def operations_def)


text \<open>
  C6, as the code has it. Division raises an OperationError with the message "Division by
  zero is not allowed" exactly when the divisor is zero. For a divisor that is not zero the
  outcome is that of the decimal division \<open>dec_div\<close>, whatever the float functions are: the
  quotient when the division returns one, and for two numbers otherwise only the overflow of
  the decimal context, raised as OperationError "Calculation failed: ...".
\<close>

theorem division_cases:
  "(calculate l ''Division'' x y = Inl (OperationError ''Division by zero is not allowed'')
      \<longleftrightarrow> is_zero y)
 \<and> (\<not> is_zero y \<and> \<not> is_snan y
      \<longrightarrow> calculate l ''Division'' x y = wrap_calculate (dec_div x y))
 \<and> (\<not> is_zero y \<and> dec_div x y = Inr q \<longrightarrow> calculate l ''Division'' x y = Inr q)
 \<and> (is_finite x \<and> is_finite y \<and> \<not> is_zero y
      \<longrightarrow> (\<exists>q'. is_finite q' \<and> calculate l ''Division'' x y = Inr q')
          \<or> calculate l ''Division'' x y
              = Inl (OperationError ''Calculation failed: [<class 'decimal.Overflow'>]''))"
proof (intro conjI impI)
  show "calculate l ''Division'' x y = Inl (OperationError ''Division by zero is not allowed'')
        \<longleftrightarrow> is_zero y"
  proof (cases "is_snan y")
    case True
    then have "\<not> is_zero y" by (cases y) simp_all
    then show ?thesis using True
      by (simp add: calculate_Division op_division_def dec_ne_0 invalid_operation_def)
  next
    case False
    show ?thesis
    proof (cases "is_zero y")
      case True
      then show ?thesis using False
        by (simp add: calculate_Division op_division_def dec_ne_0 raise_div_zero_def)
    next
      case nz: False
      then show ?thesis using False wrap_calculate_eq_OperationError [OF dec_div_library [of x y]]
        by (simp add: calculate_Division op_division_def dec_ne_0)
    qed
  qed
next
  assume "\<not> is_zero y \<and> \<not> is_snan y"
  then show "calculate l ''Division'' x y = wrap_calculate (dec_div x y)"
    by (simp add: calculate_Division op_division_def dec_ne_0)
next
  assume a: "\<not> is_zero y \<and> dec_div x y = Inr q"
  then have "\<not> is_snan y" by (auto simp add: dec_div_def check_nans_def)
  then show "calculate l ''Division'' x y = Inr q" using a
    by (simp add: calculate_Division op_division_def dec_ne_0)
next
  assume a: "is_finite x \<and> is_finite y \<and> \<not> is_zero y"
  then have ns: "\<not> is_snan y" by (cases y) simp_all
  have c: "calculate l ''Division'' x y = wrap_calculate (dec_div x y)"
    using a ns by (simp add: calculate_Division op_division_def dec_ne_0)
  have "finite_or_overflow (dec_div x y)" using a dec_div_outcome by blast
  then show "(\<exists>q'. is_finite q' \<and> calculate l ''Division'' x y = Inr q')
          \<or> calculate l ''Division'' x y
              = Inl (OperationError ''Calculation failed: [<class 'decimal.Overflow'>]'')"
    unfolding c by (cases "dec_div x y") (simp_all add: wrap_calculate_overflow)
qed


theorem division_cases_witness:
  "is_zero (Finite False 0 0)
   \<and> calculate demo_lib ''Division'' (Finite False 1 0) (Finite False 0 0)
       = Inl (OperationError ''Division by zero is not allowed'')
   \<and> \<not> is_zero (Finite False 2 0) \<and> \<not> is_snan (Finite False 2 0)
   \<and> dec_div (Finite False 60 (- 1)) (Finite False 2 0) = Inr (Finite False 30 (- 1))
   \<and> calculate demo_lib ''Division'' (Finite False 60 (- 1)) (Finite False 2 0)
       = Inr (Finite False 30 (- 1))
   \<and> calculate demo_lib ''Division'' (Finite False 60 (- 1)) (Finite False 2 0)
       = wrap_calculate (dec_div (Finite False 60 (- 1)) (Finite False 2 0))
   \<and> is_finite (Finite False 60 (- 1)) \<and> is_finite (Finite False 2 0)
   \<and> ((\<exists>q'. is_finite q'
           \<and> calculate demo_lib ''Division'' (Finite False 60 (- 1)) (Finite False 2 0) = Inr q')
        \<or> calculate demo_lib ''Division'' (Finite False 60 (- 1)) (Finite False 2 0)
            = Inl (OperationError ''Calculation failed: [<class 'decimal.Overflow'>]''))"
proof -
  have z: "is_zero (Finite False 0 0)" by simp
  have d: "dec_div (Finite False 60 (- 1)) (Finite False 2 0) = Inr (Finite False 30 (- 1))"
    by (simp add: dec_eval)
  have n: "\<not> is_zero (Finite False 2 0)" "\<not> is_snan (Finite False 2 0)"
          "is_finite (Finite False 60 (- 1))" "is_finite (Finite False 2 0)"
    by simp_all
  from division_cases [of demo_lib "Finite False 1 0" "Finite False 0 0"]
       division_cases [of demo_lib "Finite False 60 (- 1)" "Finite False 2 0" "Finite False 30 (- 1)"]
       z d n
  show ?thesis by blast
qed

text \<open>
  C6 as stated fails where the quotient overflows the decimal context: the divisor 0.1 is
  not zero, and dividing \<open>10\<^sup>9\<^sup>9\<^sup>9\<^sup>9\<^sup>9\<^sup>9\<close> by it raises instead of returning.
\<close>

theorem division_counterexample:
  "\<not> is_zero (Finite False 1 (- 1))
   \<and> calculate demo_lib ''Division'' (Finite False 1 999999) (Finite False 1 (- 1))
       = Inl (OperationError ''Calculation failed: [<class 'decimal.Overflow'>]'')"
  by (simp add: calc_eval dec_eval)

lemma calculate_Root: "calculate l ''Root'' x y = wrap_calculate (op_root l x y)"
  by (simp add: calculate_def operations_def)

lemma dec_lt_True_not_nan: "dec_lt x dec_0 = Inr True \<Longrightarrow> \<not> is_nan x \<and> is_negative x"
  by (simp add: dec_lt_0 split: if_splits)

lemma dec_ge_True_not_nan: "dec_ge x dec_0 = Inr True \<Longrightarrow> \<not> is_nan x \<and> \<not> is_negative x"
  by (simp add: dec_ge_0 split: if_splits)


text \<open>
  C7, as the code has it. For \<open>x\<close> not a NaN, the root fails with "Zero root is undefined"
  when \<open>y == 0\<close>; it fails with "Cannot calculate root of negative number" when \<open>x < 0\<close> and
  \<open>y\<close> is not zero, as for \<open>x = -4\<close>, \<open>y = 2\<close>. Otherwise, with \<open>x >= 0\<close> and \<open>y != 0\<close>, the
  outcome is that of the float computation \<open>float_root\<close>: its value when it returns one, and
  OperationError "Calculation failed: ..." when float arithmetic raises.
\<close>

theorem root_cases:
  "(dec_eq y dec_0 = Inr True \<and> \<not> is_nan x
      \<longrightarrow> calculate l ''Root'' x y = Inl (OperationError ''Zero root is undefined''))
 \<and> (dec_lt x dec_0 = Inr True \<and> dec_eq y dec_0 = Inr False
      \<longrightarrow> calculate l ''Root'' x y
          = Inl (OperationError ''Cannot calculate root of negative number''))
 \<and> (dec_ge x dec_0 = Inr True \<and> dec_ne y dec_0 = Inr True
      \<longrightarrow> calculate l ''Root'' x y = wrap_calculate (float_root l x y))
 \<and> (dec_ge x dec_0 = Inr True \<and> dec_ne y dec_0 = Inr True \<and> float_root l x y = Inr r
      \<longrightarrow> calculate l ''Root'' x y = Inr r)
 \<and> (dec_ge x dec_0 = Inr True \<and> dec_ne y dec_0 = Inr True
      \<and> float_root l x y = Inl (PyError c m) \<and> is_ArithmeticError c
      \<longrightarrow> calculate l ''Root'' x y = Inl (OperationError (''Calculation failed: '' @ m)))"
proof (intro conjI impI)
  assume a: "dec_eq y dec_0 = Inr True \<and> \<not> is_nan x"
  then have y: "\<not> is_snan y" "is_zero y" by (simp_all add: dec_eq_0 split: if_splits)
  show "calculate l ''Root'' x y = Inl (OperationError ''Zero root is undefined'')"
    using a y
    by (cases "is_negative x")
       (simp_all add: calculate_Root op_root_def raise_invalid_root_def dec_ge_0 dec_ne_0 dec_eq_0)
next
  assume a: "dec_lt x dec_0 = Inr True \<and> dec_eq y dec_0 = Inr False"
  then have x: "\<not> is_nan x" "is_negative x" using dec_lt_True_not_nan by blast+
  show "calculate l ''Root'' x y = Inl (OperationError ''Cannot calculate root of negative number'')"
    using a x by (simp add: calculate_Root op_root_def raise_invalid_root_def dec_ge_0)
next
  assume a: "dec_ge x dec_0 = Inr True \<and> dec_ne y dec_0 = Inr True"
  then show "calculate l ''Root'' x y = wrap_calculate (float_root l x y)"
    by (simp add: calculate_Root op_root_def)
next
  assume a: "dec_ge x dec_0 = Inr True \<and> dec_ne y dec_0 = Inr True \<and> float_root l x y = Inr r"
  then show "calculate l ''Root'' x y = Inr r"
    by (simp add: calculate_Root op_root_def)
next
  assume a: "dec_ge x dec_0 = Inr True \<and> dec_ne y dec_0 = Inr True
      \<and> float_root l x y = Inl (PyError c m) \<and> is_ArithmeticError c"
  then show "calculate l ''Root'' x y = Inl (OperationError (''Calculation failed: '' @ m))"
    by (simp add: calculate_Root op_root_def)
qed


theorem root_cases_witness:
  "(dec_eq (Finite False 0 0) dec_0 = Inr True \<and> \<not> is_nan (Finite False 9 0)
    \<and> calculate demo_lib ''Root'' (Finite False 9 0) (Finite False 0 0)
        = Inl (OperationError ''Zero root is undefined''))
 \<and> (dec_lt (Finite True 4 0) dec_0 = Inr True \<and> dec_eq (Finite False 2 0) dec_0 = Inr False
    \<and> calculate demo_lib ''Root'' (Finite True 4 0) (Finite False 2 0)
        = Inl (OperationError ''Cannot calculate root of negative number''))
 \<and> (dec_ge (Finite False 9 0) dec_0 = Inr True \<and> dec_ne (Finite False 1 0) dec_0 = Inr True
    \<and> float_root demo_lib (Finite False 9 0) (Finite False 1 0) = Inr (Finite False 9 0)
    \<and> calculate demo_lib ''Root'' (Finite False 9 0) (Finite False 1 0) = Inr (Finite False 9 0)
    \<and> calculate demo_lib ''Root'' (Finite False 9 0) (Finite False 1 0)
        = wrap_calculate (float_root demo_lib (Finite False 9 0) (Finite False 1 0)))
 \<and> (dec_ge (Finite False 0 0) dec_0 = Inr True \<and> dec_ne (Finite True 1 0) dec_0 = Inr True
    \<and> float_root demo_lib (Finite False 0 0) (Finite True 1 0)
        = Inl (PyError ZeroDivisionError ''0.0 cannot be raised to a negative power'')
    \<and> is_ArithmeticError ZeroDivisionError
    \<and> calculate demo_lib ''Root'' (Finite False 0 0) (Finite True 1 0)
        = Inl (OperationError ''Calculation failed: 0.0 cannot be raised to a negative power''))"
proof -
  have h1: "dec_eq (Finite False 0 0) dec_0 = Inr True" "\<not> is_nan (Finite False 9 0)"
    by (simp_all add: dec_eval)
  have h2: "dec_lt (Finite True 4 0) dec_0 = Inr True"
           "dec_eq (Finite False 2 0) dec_0 = Inr False"
    by (simp_all add: dec_eval)
  have h3: "dec_ge (Finite False 9 0) dec_0 = Inr True"
           "dec_ne (Finite False 1 0) dec_0 = Inr True"
           "float_root demo_lib (Finite False 9 0) (Finite False 1 0) = Inr (Finite False 9 0)"
    by (simp_all add: dec_eval demo_eval)
  have h4: "dec_ge (Finite False 0 0) dec_0 = Inr True"
           "dec_ne (Finite True 1 0) dec_0 = Inr True"
           "float_root demo_lib (Finite False 0 0) (Finite True 1 0)
              = Inl (PyError ZeroDivisionError ''0.0 cannot be raised to a negative power'')"
           "is_ArithmeticError ZeroDivisionError"
    by (simp_all add: dec_eval demo_eval)
  have c1: "calculate demo_lib ''Root'' (Finite False 9 0) (Finite False 0 0)
        = Inl (OperationError ''Zero root is undefined'')"
    using root_cases [of "Finite False 0 0" "Finite False 9 0" demo_lib] h1 by blast
  have c2: "calculate demo_lib ''Root'' (Finite True 4 0) (Finite False 2 0)
        = Inl (OperationError ''Cannot calculate root of negative number'')"
    using root_cases [of "Finite False 2 0" "Finite True 4 0" demo_lib] h2 by blast
  have c3: "calculate demo_lib ''Root'' (Finite False 9 0) (Finite False 1 0) = Inr (Finite False 9 0)"
           "calculate demo_lib ''Root'' (Finite False 9 0) (Finite False 1 0)
              = wrap_calculate (float_root demo_lib (Finite False 9 0) (Finite False 1 0))"
    using root_cases [of "Finite False 1 0" "Finite False 9 0" demo_lib "Finite False 9 0"] h3
    by blast+
  have c4: "calculate demo_lib ''Root'' (Finite False 0 0) (Finite True 1 0)
        = Inl (OperationError
            (''Calculation failed: '' @ ''0.0 cannot be raised to a negative power''))"
    using root_cases [where y = "Finite True 1 0" and x = "Finite False 0 0" and l = demo_lib
                        and c = ZeroDivisionError
                        and m = "''0.0 cannot be raised to a negative power''"] h4
    by blast
  show ?thesis using h1 h2 h3 h4 c1 c2 c3 c4 by simp
qed

text \<open>
  C7 as stated fails on two inputs. With \<open>x = 0\<close> and \<open>y = -1\<close> neither failure condition
  holds, and the root raises instead of returning: \<^verbatim>\<open>pow(0.0, -1.0)\<close> raises
  ZeroDivisionError. With \<open>x = -4\<close> and \<open>y = 0\<close> the number is negative and the message is
  the one of the zero root.
\<close>

theorem root_counterexample:
  "calculate demo_lib ''Root'' (Finite False 0 0) (Finite True 1 0)
     = Inl (OperationError ''Calculation failed: 0.0 cannot be raised to a negative power'')
   \<and> calculate demo_lib ''Root'' (Finite True 4 0) (Finite False 0 0)
     = Inl (OperationError ''Zero root is undefined'')"
  by (simp add: calc_eval dec_eval demo_eval)

subsection \<open>Decimal numbers as text\<close>

text \<open>A digit value is one of the ten indices of \<open>digit_char\<close>.\<close>

lemma lt10_cases:
  fixes d :: nat
  assumes "d < 10"
  shows "d \<in> {0, 1, 2, 3, 4, 5, 6, 7, 8, 9}"
  using assms by auto

lemma digit_char_digit: "n < 10 \<Longrightarrow> is_digit (digit_char n)"
  by (drule lt10_cases) (auto simp add: digit_char_def is_digit_def)

lemma digit_val_digit_char: "n < 10 \<Longrightarrow> digit_val (digit_char n) = n"
  by (drule lt10_cases) (auto simp add: digit_char_def digit_val_def)

lemma str_nat_digits: "list_all is_digit (str_nat n)"
proof (induction n rule: str_nat.induct)
  case (1 n)
  show ?case
  proof (cases "n < 10")
    case True
    then show ?thesis by (simp add: str_nat.simps [of n] digit_char_digit)
  next
    case False
    then show ?thesis using 1 by (simp add: str_nat.simps [of n] digit_char_digit)
  qed
qed

lemma str_nat_nonempty: "str_nat n \<noteq> []"
  by (simp add: str_nat.simps [of n])

lemma nat_of_str_snoc: "nat_of_str (ds @ [c]) = 10 * nat_of_str ds + digit_val c"
  by (simp add: nat_of_str_def)

lemma nat_of_str_Nil [simp]: "nat_of_str [] = 0"
  by (simp add: nat_of_str_def)

lemma nat_of_str_str_nat: "nat_of_str (str_nat n) = n"
proof (induction n rule: str_nat.induct)
  case (1 n)
  show ?case
  proof (cases "n < 10")
    case True
    then show ?thesis
      using nat_of_str_snoc [of "[]" "digit_char n"]
      by (simp add: str_nat.simps [of n] digit_val_digit_char)
  next
    case False
    then show ?thesis using 1
      by (simp add: str_nat.simps [of n] nat_of_str_snoc digit_val_digit_char)
  qed
qed

lemma foldl_digits:
  "foldl (\<lambda>a c. 10 * a + digit_val c) a ds
   = a * 10 ^ length ds + foldl (\<lambda>a c. 10 * a + digit_val c) 0 ds"
proof (induction ds arbitrary: a rule: rev_induct)
  case Nil
  then show ?case by simp
next
  case (snoc d ds)
  show ?case using snoc [of a] by (simp add: algebra_simps)
qed

lemma nat_of_str_append:
  "nat_of_str (xs @ ys) = nat_of_str xs * 10 ^ length ys + nat_of_str ys"
  using foldl_digits [of "nat_of_str xs" ys] by (simp add: nat_of_str_def)

lemma nat_of_str_zeros [simp]: "nat_of_str (replicate k (CHR ''0'')) = 0"
  by (induction k) (simp_all add: nat_of_str_def digit_val_def)

lemma nat_of_str_zeros_append: "nat_of_str (replicate k (CHR ''0'') @ ds) = nat_of_str ds"
  by (simp add: nat_of_str_append)

lemma nat_of_str_zero_Cons: "nat_of_str (CHR ''0'' # ds) = nat_of_str ds"
  using nat_of_str_zeros_append [of 1 ds] by simp

lemma takeWhile_digits:
  assumes "list_all is_digit ds" and "rest = [] \<or> \<not> is_digit (hd rest)"
  shows "takeWhile is_digit (ds @ rest) = ds" and "dropWhile is_digit (ds @ rest) = rest"
proof -
  have a: "\<forall>x \<in> set ds. is_digit x" using assms(1) by (simp add: list_all_iff)
  show "takeWhile is_digit (ds @ rest) = ds"
    using a assms(2) by (cases rest) (simp_all add: takeWhile_append2)
  show "dropWhile is_digit (ds @ rest) = rest"
    using a assms(2) by (cases rest) (simp_all add: dropWhile_append2)
qed

lemma not_digit_chars [simp]:
  "\<not> is_digit (CHR ''.'')" "\<not> is_digit (CHR ''E'')" "\<not> is_digit (CHR ''-'')" "\<not> is_digit (CHR ''+'')"
  "\<not> is_digit (CHR ''I'')" "\<not> is_digit (CHR ''N'')" "\<not> is_digit (CHR ''s'')"
  by (simp_all add: is_digit_def)

lemma digit_not_sign: "is_digit c \<Longrightarrow> c \<noteq> CHR ''-'' \<and> c \<noteq> CHR ''+''"
  by (auto simp add: is_digit_def)

lemma lower_char_E [simp]: "lower_char (CHR ''E'') = CHR ''e''"
  by (simp add: lower_char_def)

lemma is_digit_cases:
  assumes "is_digit c"
  shows "c = CHR ''0'' \<or> c = CHR ''1'' \<or> c = CHR ''2'' \<or> c = CHR ''3'' \<or> c = CHR ''4''
       \<or> c = CHR ''5'' \<or> c = CHR ''6'' \<or> c = CHR ''7'' \<or> c = CHR ''8'' \<or> c = CHR ''9''"
  using assms by (simp add: is_digit_def)

lemma lower_char_digit: "is_digit c \<Longrightarrow> lower_char c = c"
  by (drule is_digit_cases) (elim disjE, simp_all add: lower_char_def)

lemma lower_digits: "list_all is_digit ds \<Longrightarrow> lower ds = ds"
  by (induction ds) (simp_all add: lower_def lower_char_digit)

lemma split_sign_digits:
  assumes "ds \<noteq> []" and "list_all is_digit ds"
  shows "split_sign ds = (False, ds)"
  using assms digit_not_sign [of "hd ds"] by (cases ds) (simp_all add: split_sign_def)

lemma parse_exp_Nil [simp]: "parse_exp [] = Some 0"
  by (simp add: parse_exp_def)

lemma parse_exp_fmt: "parse_exp (CHR ''E'' # fmt_plus_d i) = Some i"
proof (cases "i < 0")
  case True
  then show ?thesis
    by (simp add: parse_exp_def fmt_plus_d_def split_sign_def nat_of_str_str_nat
          str_nat_nonempty str_nat_digits)
next
  case False
  then show ?thesis
    by (simp add: parse_exp_def fmt_plus_d_def split_sign_def nat_of_str_str_nat
          str_nat_nonempty str_nat_digits)
qed

lemma digits_Cons:
  assumes "list_all is_digit ds" and "\<not> is_digit c"
  shows "takeWhile is_digit (ds @ c # rest) = ds"
    and "dropWhile is_digit (ds @ c # rest) = c # rest"
  using takeWhile_digits [OF assms(1), of "c # rest"] assms(2) by simp_all

lemma digits_all:
  assumes "list_all is_digit ds"
  shows "takeWhile is_digit ds = ds" and "dropWhile is_digit ds = []"
  using takeWhile_digits [OF assms, of "[]"] by simp_all

text \<open>The four shapes of a number: digits, with a fraction, with an exponent, with both.\<close>

lemma parse_number_int:
  assumes "list_all is_digit ip" and "ip \<noteq> []"
  shows "parse_number ip = Some (nat_of_str ip, 0)"
  using assms(2) by (simp add: parse_number_def Let_def digits_all [OF assms(1)])

lemma parse_number_int_exp:
  assumes "list_all is_digit ip" and "ip \<noteq> []"
  shows "parse_number (ip @ CHR ''E'' # fmt_plus_d i) = Some (nat_of_str ip, i)"
  using assms(2)
  by (simp add: parse_number_def Let_def digits_Cons [OF assms(1)] parse_exp_fmt)

lemma parse_number_frac:
  assumes "list_all is_digit ip" and "list_all is_digit fp" and "ip \<noteq> []"
  shows "parse_number (ip @ CHR ''.'' # fp) = Some (nat_of_str (ip @ fp), - int (length fp))"
  using assms(3)
  by (simp add: parse_number_def Let_def digits_Cons [OF assms(1)] digits_all [OF assms(2)])

lemma parse_number_frac_exp:
  assumes "list_all is_digit ip" and "list_all is_digit fp" and "ip \<noteq> []"
  shows "parse_number (ip @ CHR ''.'' # fp @ CHR ''E'' # fmt_plus_d i)
         = Some (nat_of_str (ip @ fp), i - int (length fp))"
  using assms(3)
  by (simp add: parse_number_def Let_def digits_Cons [OF assms(1)] digits_Cons [OF assms(2)]
        parse_exp_fmt)

lemma hd_str_nat_digit: "is_digit (hd (str_nat c))"
  using str_nat_digits [of c] str_nat_nonempty [of c] by (cases "str_nat c") simp_all

lemma digits_text:
  "list_all is_digit ds \<Longrightarrow> list_all (\<lambda>c. is_digit c \<or> c \<in> set ''.E+-'') ds"
  by (induction ds) simp_all

lemma fmt_plus_d_text: "list_all (\<lambda>c. is_digit c \<or> c \<in> set ''.E+-'') (fmt_plus_d i)"
  using digits_text [OF str_nat_digits [of "nat \<bar>i\<bar>"]] by (simp add: fmt_plus_d_def)

lemma take_digits: "list_all is_digit ds \<Longrightarrow> list_all is_digit (take k ds)"
  by (simp add: list_all_iff) (meson in_set_takeD)

lemma drop_digits: "list_all is_digit ds \<Longrightarrow> list_all is_digit (drop k ds)"
  by (simp add: list_all_iff) (meson in_set_dropD)

lemma zeros_digits: "list_all is_digit (replicate k (CHR ''0''))"
  by (simp add: list_all_iff is_digit_def)

lemma zero_digit: "is_digit (CHR ''0'')"
  by (simp add: is_digit_def)

lemma finite_text:
  "\<exists>body. decimal_str (Finite s c e) = sign_str s @ body
          \<and> parse_number body = Some (c, e)
          \<and> body \<noteq> [] \<and> is_digit (hd body)
          \<and> list_all (\<lambda>c. is_digit c \<or> c \<in> set ''.E+-'') body"
proof -
  define ds where "ds = str_nat c"
  define n where "n = length ds"
  have dig: "list_all is_digit ds" by (simp add: ds_def str_nat_digits)
  have ne: "ds \<noteq> []" by (simp add: ds_def str_nat_nonempty)
  have n1: "1 \<le> n" using ne by (cases ds) (simp_all add: n_def)
  have val: "nat_of_str ds = c" by (simp add: ds_def nat_of_str_str_nat)
  have hdig: "is_digit (hd ds)" by (simp add: ds_def hd_str_nat_digit)
  note dtext = digits_text [OF dig]
  consider (A1) "e \<le> 0" "- 6 < e + int n" "e + int n \<le> 0"
    | (A2) "e = 0"
    | (A3) "e < 0" "0 < e + int n"
    | (B1) "\<not> (e \<le> 0 \<and> - 6 < e + int n)" "n = 1"
    | (B2) "\<not> (e \<le> 0 \<and> - 6 < e + int n)" "1 < n"
    using n1 by linarith
  then show ?thesis
  proof cases
    case A1
    define k where "k = nat (- (e + int n))"
    define body where "body = [CHR ''0''] @ CHR ''.'' # (replicate k (CHR ''0'') @ ds)"
    have 1: "decimal_str (Finite s c e) = sign_str s @ body"
      using A1 by (simp add: Let_def ds_def [symmetric] n_def [symmetric] body_def k_def)
    have "parse_number body
          = Some (nat_of_str ([CHR ''0''] @ (replicate k (CHR ''0'') @ ds)),
                  - int (length (replicate k (CHR ''0'') @ ds)))"
      unfolding body_def
      by (rule parse_number_frac) (simp_all add: dig zeros_digits zero_digit)
    then have 2: "parse_number body = Some (c, e)"
      using A1 by (simp add: nat_of_str_zero_Cons nat_of_str_zeros_append val k_def n_def)
    have 3: "list_all (\<lambda>c. is_digit c \<or> c \<in> set ''.E+-'') body"
      using dtext digits_text [OF zeros_digits [of k]] zero_digit by (simp add: body_def)
    show ?thesis using 1 2 3 zero_digit by (auto simp add: body_def)
  next
    case A2
    have 1: "decimal_str (Finite s c e) = sign_str s @ ds"
      using A2 n1 ne by (simp add: Let_def ds_def [symmetric] n_def [symmetric])
    have 2: "parse_number ds = Some (c, e)"
      using parse_number_int [OF dig ne] A2 by (simp add: val)
    show ?thesis using 1 2 ne hdig dtext by blast
  next
    case A3
    define k where "k = nat (e + int n)"
    have k: "0 < k" "k < n" using A3 by (simp_all add: k_def)
    define body where "body = take k ds @ CHR ''.'' # drop k ds"
    have 1: "decimal_str (Finite s c e) = sign_str s @ body"
      using A3 k by (simp add: Let_def ds_def [symmetric] n_def [symmetric] body_def k_def)
    have tne: "take k ds \<noteq> []" using k ne by (cases ds) (simp_all add: n_def)
    have "parse_number body
          = Some (nat_of_str (take k ds @ drop k ds), - int (length (drop k ds)))"
      unfolding body_def
      by (rule parse_number_frac) (simp_all add: take_digits drop_digits dig k ne)
    then have 2: "parse_number body = Some (c, e)"
      using A3 k by (simp add: val k_def n_def)
    have 3: "list_all (\<lambda>c. is_digit c \<or> c \<in> set ''.E+-'') body"
      using digits_text [OF take_digits [OF dig, of k]] digits_text [OF drop_digits [OF dig, of k]]
      by (simp add: body_def)
    have 4: "hd body = hd ds" using k ne by (cases ds) (simp_all add: body_def)
    show ?thesis using 1 2 3 4 hdig tne by (auto simp add: body_def)
  next
    case B1
    define body where "body = ds @ CHR ''E'' # fmt_plus_d (e + int n - 1)"
    have 1: "decimal_str (Finite s c e) = sign_str s @ body"
      using B1 by (auto simp add: Let_def ds_def [symmetric] n_def [symmetric] body_def)
    have 2: "parse_number body = Some (c, e)"
      unfolding body_def using parse_number_int_exp [OF dig ne, of "e + int n - 1"] B1
      by (simp add: val)
    have 3: "list_all (\<lambda>c. is_digit c \<or> c \<in> set ''.E+-'') body"
      using dtext fmt_plus_d_text [of "e + int n - 1"] by (simp add: body_def)
    have 4: "hd body = hd ds" using ne by (cases ds) (simp_all add: body_def)
    show ?thesis using 1 2 3 4 hdig ne by (auto simp add: body_def)
  next
    case B2
    define body where
      "body = take 1 ds @ CHR ''.'' # drop 1 ds @ CHR ''E'' # fmt_plus_d (e + int n - 1)"
    have 1: "decimal_str (Finite s c e) = sign_str s @ body"
      using B2 by (auto simp add: Let_def ds_def [symmetric] n_def [symmetric] body_def)
    have tne: "take 1 ds \<noteq> []" using ne by (cases ds) simp_all
    have "parse_number body
          = Some (nat_of_str (take 1 ds @ drop 1 ds), e + int n - 1 - int (length (drop 1 ds)))"
      unfolding body_def
      by (rule parse_number_frac_exp) (simp_all add: take_digits drop_digits dig ne)
    then have 2: "parse_number body = Some (c, e)"
      using B2 by (simp add: val n_def)
    have 3: "list_all (\<lambda>c. is_digit c \<or> c \<in> set ''.E+-'') body"
      using digits_text [OF take_digits [OF dig, of 1]] digits_text [OF drop_digits [OF dig, of 1]]
        fmt_plus_d_text [of "e + int n - 1"]
      by (simp add: body_def)
    have 4: "hd body = hd ds" using ne by (cases ds) (simp_all add: body_def)
    show ?thesis using 1 2 3 4 hdig tne by (auto simp add: body_def)
  qed
qed

lemma text_char_plain:
  assumes "is_digit c \<or> c \<in> set ''.E+-''"
  shows "\<not> is_space c \<and> c \<noteq> CHR ''_''"
proof -
  have "c = CHR ''0'' \<or> c = CHR ''1'' \<or> c = CHR ''2'' \<or> c = CHR ''3'' \<or> c = CHR ''4''
       \<or> c = CHR ''5'' \<or> c = CHR ''6'' \<or> c = CHR ''7'' \<or> c = CHR ''8'' \<or> c = CHR ''9''
       \<or> c = CHR ''.'' \<or> c = CHR ''E'' \<or> c = CHR ''+'' \<or> c = CHR ''-''"
    using assms by (simp add: is_digit_def)
  then show ?thesis by (elim disjE) (simp_all add: is_space_def)
qed


lemma text_plain:
  assumes "list_all (\<lambda>c. is_digit c \<or> c \<in> set ''.E+-'') t"
  shows "list_all (\<lambda>c. \<not> is_space c \<and> c \<noteq> CHR ''_'') t"
  unfolding list_all_iff
proof
  fix c assume "c \<in> set t"
  then have "is_digit c \<or> c \<in> set ''.E+-''" using assms unfolding list_all_iff by blast
  then show "\<not> is_space c \<and> c \<noteq> CHR ''_''" by (rule text_char_plain)
qed

lemma strip_plain:
  assumes "list_all (\<lambda>c. \<not> is_space c \<and> c \<noteq> CHR ''_'') t"
  shows "filter (\<lambda>c. c \<noteq> CHR ''_'') (strip t) = t"
proof -
  have a: "\<forall>c \<in> set t. \<not> is_space c" "\<forall>c \<in> set t. c \<noteq> CHR ''_''"
    using assms by (simp_all add: list_all_iff)
  have d: "dropWhile is_space xs = xs" if "\<forall>c \<in> set xs. \<not> is_space c" for xs
    using that by (cases xs) simp_all
  have 1: "dropWhile is_space t = t" using a(1) by (rule d)
  have 2: "dropWhile is_space (rev t) = rev t" using a(1) by (intro d) simp
  have 3: "strip t = t" by (simp add: strip_def 1 2)
  show ?thesis using a(2) by (simp add: 3)
qed

lemma split_sign_text:
  assumes "body \<noteq> []" and "hd body \<noteq> CHR ''-''" and "hd body \<noteq> CHR ''+''"
  shows "split_sign (sign_str s @ body) = (s, body)"
  using assms by (cases body) (simp_all add: split_sign_def sign_str_def)

lemma sign_str_plain: "list_all (\<lambda>c. \<not> is_space c \<and> c \<noteq> CHR ''_'') (sign_str s)"
  by (simp add: sign_str_def is_space_def)

lemma parse_finite: "decimal_parse (decimal_str (Finite s c e)) = Inr (Finite s c e)"
proof -
  obtain body where b: "decimal_str (Finite s c e) = sign_str s @ body"
      "parse_number body = Some (c, e)" "body \<noteq> []" "is_digit (hd body)"
      "list_all (\<lambda>c. is_digit c \<or> c \<in> set ''.E+-'') body"
    using finite_text [of s c e] by blast
  have p: "list_all (\<lambda>c. \<not> is_space c \<and> c \<noteq> CHR ''_'') (sign_str s @ body)"
    using sign_str_plain [of s] text_plain [OF b(5)] by simp
  have sg: "split_sign (sign_str s @ body) = (s, body)"
    using split_sign_text [OF b(3)] digit_not_sign [OF b(4)] by simp
  show ?thesis
    unfolding decimal_parse_def b(1) strip_plain [OF p] sg by (simp add: b(2))
qed

text \<open>The special values.\<close>

lemma payload_digits: "list_all is_digit (if p = 0 then [] else str_nat p)"
  by (simp add: str_nat_digits)

lemma payload_value: "nat_of_str (if p = 0 then [] else str_nat p) = p"
  by (simp add: nat_of_str_str_nat)

lemma parse_infinity: "decimal_parse (decimal_str (Infinity s)) = Inr (Infinity s)"
proof -
  have p: "list_all (\<lambda>c. \<not> is_space c \<and> c \<noteq> CHR ''_'') (sign_str s @ ''Infinity'')"
    using sign_str_plain [of s] by (simp add: is_space_def)
  have sg: "split_sign (sign_str s @ ''Infinity'') = (s, ''Infinity'')"
    by (rule split_sign_text) simp_all
  have n: "parse_number ''Infinity'' = None"
    by (simp add: parse_number_def Let_def)
  have sp: "parse_special s ''Infinity'' = Some (Infinity s)"
    by (simp add: parse_special_def Let_def lower_def lower_char_def)
  show ?thesis
    unfolding decimal_parse_def decimal_str.simps strip_plain [OF p] sg by (simp add: n sp)
qed

lemma parse_nan: "decimal_parse (decimal_str (NaN s p)) = Inr (NaN s p)"
proof -
  define pd where "pd = (if p = 0 then [] else str_nat p)"
  have dig: "list_all is_digit pd" by (simp add: pd_def str_nat_digits)
  have val: "nat_of_str pd = p" by (simp add: pd_def nat_of_str_str_nat)
  have str: "decimal_str (NaN s p) = sign_str s @ (''NaN'' @ pd)" by (simp add: pd_def)
  have p: "list_all (\<lambda>c. \<not> is_space c \<and> c \<noteq> CHR ''_'') (sign_str s @ (''NaN'' @ pd))"
    using sign_str_plain [of s] text_plain [OF digits_text [OF dig]] by (simp add: is_space_def)
  have sg: "split_sign (sign_str s @ (''NaN'' @ pd)) = (s, ''NaN'' @ pd)"
    by (rule split_sign_text) simp_all
  have n: "parse_number (''NaN'' @ pd) = None"
    by (simp add: parse_number_def Let_def)
  have lw: "lower (CHR ''N'' # CHR ''a'' # CHR ''N'' # pd) = CHR ''n'' # CHR ''a'' # CHR ''n'' # pd"
    using lower_digits [OF dig] by (simp add: lower_def lower_char_def)
  have sp: "parse_special s (''NaN'' @ pd) = Some (NaN s p)"
    by (simp add: parse_special_def Let_def lw dig val)
  show ?thesis
    unfolding decimal_parse_def str strip_plain [OF p] sg using n sp by simp
qed

lemma parse_snan: "decimal_parse (decimal_str (SNaN s p)) = Inr (SNaN s p)"
proof -
  define pd where "pd = (if p = 0 then [] else str_nat p)"
  have dig: "list_all is_digit pd" by (simp add: pd_def str_nat_digits)
  have val: "nat_of_str pd = p" by (simp add: pd_def nat_of_str_str_nat)
  have str: "decimal_str (SNaN s p) = sign_str s @ (''sNaN'' @ pd)" by (simp add: pd_def)
  have p: "list_all (\<lambda>c. \<not> is_space c \<and> c \<noteq> CHR ''_'') (sign_str s @ (''sNaN'' @ pd))"
    using sign_str_plain [of s] text_plain [OF digits_text [OF dig]] by (simp add: is_space_def)
  have sg: "split_sign (sign_str s @ (''sNaN'' @ pd)) = (s, ''sNaN'' @ pd)"
    by (rule split_sign_text) simp_all
  have n: "parse_number (''sNaN'' @ pd) = None"
    by (simp add: parse_number_def Let_def)
  have lw: "lower (CHR ''s'' # CHR ''N'' # CHR ''a'' # CHR ''N'' # pd)
            = CHR ''s'' # CHR ''n'' # CHR ''a'' # CHR ''n'' # pd"
    using lower_digits [OF dig] by (simp add: lower_def lower_char_def)
  have sp: "parse_special s (''sNaN'' @ pd) = Some (SNaN s p)"
    by (simp add: parse_special_def Let_def lw dig val)
  show ?thesis
    unfolding decimal_parse_def str strip_plain [OF p] sg using n sp by simp
qed

text \<open>Reading back what \<open>decimal_str\<close> wrote gives the same decimal.\<close>

lemma decimal_parse_str: "decimal_parse (decimal_str d) = Inr d"
  by (cases d) (simp_all only: parse_finite parse_infinity parse_nan parse_snan)

subsection \<open>Serialization\<close>

lemma dec_cmp_refl: "\<not> is_nan x \<Longrightarrow> dec_cmp x x = Some 0"
  by (cases x) (simp_all add: is_nan_def Let_def)

lemma dec_eq_refl: "\<not> is_nan x \<Longrightarrow> dec_eq x x = Inr True"
  by (simp add: dec_eq_def dec_cmp_refl) (simp add: is_nan_def)

lemma dec_ne_refl: "\<not> is_nan x \<Longrightarrow> dec_ne x x = Inr False"
  by (simp add: dec_ne_def dec_eq_refl)

lemma getitem_to_dict:
  "getitem (to_dict l c) ''operation'' = Inr (operation c)"
  "getitem (to_dict l c) ''operand1'' = Inr (decimal_str (operand1 c))"
  "getitem (to_dict l c) ''operand2'' = Inr (decimal_str (operand2 c))"
  "getitem (to_dict l c) ''result'' = Inr (decimal_str (result c))"
  "getitem (to_dict l c) ''timestamp'' = Inr (isoformat l (timestamp c))"
  by (simp_all add: getitem_def to_dict_def)

lemma getitem_setitem_result:
  "getitem (setitem (to_dict l c) ''result'' tr) ''operation'' = Inr (operation c)"
  "getitem (setitem (to_dict l c) ''result'' tr) ''operand1'' = Inr (decimal_str (operand1 c))"
  "getitem (setitem (to_dict l c) ''result'' tr) ''operand2'' = Inr (decimal_str (operand2 c))"
  "getitem (setitem (to_dict l c) ''result'' tr) ''result'' = Inr tr"
  "getitem (setitem (to_dict l c) ''result'' tr) ''timestamp'' = Inr (isoformat l (timestamp c))"
  by (simp_all add: getitem_def to_dict_def)

lemma Calculation_result:
  assumes "Calculation l t0 opname a b = Inr c"
  shows "calculate l (operation c) (operand1 c) (operand2 c) = Inr (result c)"
    and "operation c = opname" and "operand1 c = a" and "operand2 c = b" and "timestamp c = t0"
  using assms by (auto simp add: Calculation_def split: sum.splits)

lemma rebuilt:
  fixes c :: "'t calculation"
  assumes "calculate l (operation c) (operand1 c) (operand2 c) = Inr (result c)"
  shows "Calculation l now (operation c) (operand1 c) (operand2 c) = Inr (c\<lparr>timestamp := now\<rparr>)"
  using assms by (simp add: Calculation_def)


text \<open>
  C4, as the code has it. Let \<open>c\<close> be a record whose result is the computed one, whose
  operands and result are not NaN and whose timestamp \<^verbatim>\<open>fromisoformat\<close> reads back from
  its \<^verbatim>\<open>isoformat\<close>. Then \<open>from_dict (to_dict c)\<close> returns, at whatever time it runs, the
  record \<open>c\<close> itself with no warning: the operands read back from their text, the result
  computed again from them, and the stored timestamp. It is equal to \<open>c\<close> under \<^verbatim>\<open>__eq__\<close>.
  When the stored result is replaced by the text of another decimal, \<open>from_dict\<close> still
  returns \<open>c\<close> with its computed result, and logs one warning.
\<close>

theorem serialization_roundtrip:
  fixes c :: "'t calculation"
  assumes "calculate l (operation c) (operand1 c) (operand2 c) = Inr (result c)"
      and "fromisoformat l (isoformat l (timestamp c)) = Inr (timestamp c)"
      and "\<not> is_nan (operand1 c)" and "\<not> is_nan (operand2 c)" and "\<not> is_nan (result c)"
  shows "from_dict l now (to_dict l c) = Inr (c, [])
       \<and> calc_eq c c = Inr True
       \<and> (decimal_parse tr = Inr saved \<and> dec_ne (result c) saved = Inr True
            \<longrightarrow> from_dict l now (setitem (to_dict l c) ''result'' tr)
                = Inr (c, [''Loaded calculation result '' @ decimal_str saved
                           @ '' differs from computed result '' @ decimal_str (result c)]))"
proof (intro conjI impI)
  show "from_dict l now (to_dict l c) = Inr (c, [])"
    by (simp add: from_dict_def from_dict_body_def getitem_to_dict decimal_parse_str
          rebuilt [OF assms(1)] assms(2) dec_ne_refl [OF assms(5)])
next
  show "calc_eq c c = Inr True"
    by (simp add: calc_eq_def dec_eq_refl assms(3,4,5))
next
  assume "decimal_parse tr = Inr saved \<and> dec_ne (result c) saved = Inr True"
  then show "from_dict l now (setitem (to_dict l c) ''result'' tr)
             = Inr (c, [''Loaded calculation result '' @ decimal_str saved
                        @ '' differs from computed result '' @ decimal_str (result c)])"
    by (simp add: from_dict_def from_dict_body_def getitem_setitem_result decimal_parse_str
          rebuilt [OF assms(1)] assms(2))
qed


theorem serialization_roundtrip_witness:
  "calculate demo_lib (operation demo_c1) (operand1 demo_c1) (operand2 demo_c1)
     = Inr (result demo_c1)
   \<and> fromisoformat demo_lib (isoformat demo_lib (timestamp demo_c1)) = Inr (timestamp demo_c1)
   \<and> \<not> is_nan (operand1 demo_c1) \<and> \<not> is_nan (operand2 demo_c1) \<and> \<not> is_nan (result demo_c1)
   \<and> to_dict demo_lib demo_c1
       = [(''operation'', ''Addition''), (''operand1'', ''2.5''), (''operand2'', ''3.5''),
          (''result'', ''6.0''), (''timestamp'', ''1'')]
   \<and> from_dict demo_lib 99 (to_dict demo_lib demo_c1) = Inr (demo_c1, [])
   \<and> calc_eq demo_c1 demo_c1 = Inr True
   \<and> decimal_parse ''7'' = Inr (Finite False 7 0)
   \<and> dec_ne (result demo_c1) (Finite False 7 0) = Inr True
   \<and> from_dict demo_lib 99 (setitem (to_dict demo_lib demo_c1) ''result'' ''7'')
       = Inr (demo_c1, [''Loaded calculation result 7 differs from computed result 6.0''])"
proof -
  have h1: "calculate demo_lib (operation demo_c1) (operand1 demo_c1) (operand2 demo_c1)
            = Inr (result demo_c1)"
    by (simp add: calc_eval dec_eval demo_c1_def)
  have h2: "fromisoformat demo_lib (isoformat demo_lib (timestamp demo_c1))
            = Inr (timestamp demo_c1)"
    by (simp add: demo_eval str_eval parse_eval)
  have h3: "\<not> is_nan (operand1 demo_c1)" "\<not> is_nan (operand2 demo_c1)"
           "\<not> is_nan (result demo_c1)"
    by (simp_all add: demo_c1_def is_nan_def)
  have d: "to_dict demo_lib demo_c1
       = [(''operation'', ''Addition''), (''operand1'', ''2.5''), (''operand2'', ''3.5''),
          (''result'', ''6.0''), (''timestamp'', ''1'')]"
    by (simp add: to_dict_def demo_eval str_eval)
  have p: "decimal_parse ''7'' = Inr (Finite False 7 0)"
    by (simp add: parse_eval)
  have n: "dec_ne (result demo_c1) (Finite False 7 0) = Inr True"
    by (simp add: demo_c1_def dec_eval)
  have s7: "decimal_str (Finite False 7 0) = ''7''" "decimal_str (result demo_c1) = ''6.0''"
    by (simp_all add: demo_c1_def str_eval)
  note t = serialization_roundtrip [OF h1 h2 h3, of 99 "''7''" "Finite False 7 0"]
  have c1: "from_dict demo_lib 99 (to_dict demo_lib demo_c1) = Inr (demo_c1, [])"
    using t by blast
  have c2: "calc_eq demo_c1 demo_c1 = Inr True"
    using t by blast
  have c3: "from_dict demo_lib 99 (setitem (to_dict demo_lib demo_c1) ''result'' ''7'')
       = Inr (demo_c1, [''Loaded calculation result '' @ decimal_str (Finite False 7 0)
                        @ '' differs from computed result '' @ decimal_str (result demo_c1)])"
    using t p n by blast
  have c3': "from_dict demo_lib 99 (setitem (to_dict demo_lib demo_c1) ''result'' ''7'')
       = Inr (demo_c1, [''Loaded calculation result 7 differs from computed result 6.0''])"
    unfolding c3 s7 by simp
  show ?thesis using h1 h2 h3 d p n c1 c2 c3' by blast
qed

text \<open>
  C4 as stated fails on a record with a NaN operand: the constructor builds it,
  \<open>from_dict (to_dict c)\<close> returns it with a warning about its result, and \<^verbatim>\<open>__eq__\<close> finds it
  different from \<open>c\<close>, a NaN being equal to nothing.
\<close>

theorem serialization_counterexample:
  "Calculation demo_lib 1 ''Addition'' (NaN False 0) (Finite False 1 0) = Inr demo_nan
   \<and> from_dict demo_lib 99 (to_dict demo_lib demo_nan)
       = Inr (demo_nan, [''Loaded calculation result NaN differs from computed result NaN''])
   \<and> calc_eq demo_nan demo_nan = Inr False"
proof -
  have 1: "Calculation demo_lib 1 ''Addition'' (NaN False 0) (Finite False 1 0) = Inr demo_nan"
    by (simp add: calc_eval dec_eval demo_nan_def)
  have 2: "from_dict demo_lib 99 (to_dict demo_lib demo_nan)
       = Inr (demo_nan, [''Loaded calculation result NaN differs from computed result NaN''])"
    by (simp add: serial_eval calc_eval dec_eval demo_eval demo_nan_def str_eval parse_eval)
  have 3: "calc_eq demo_nan demo_nan = Inr False"
    by (simp add: calc_eq_def dec_eval demo_nan_def)
  show ?thesis using 1 2 3 by blast
qed

end
